theory Spec2Isabelle
  imports Main "HOL-Library.Word" "HOL-Library.Monad_Syntax"
begin

unbundle bit_operations_syntax

section \<open>vsfs: the on-disk data model\<close>

text \<open>
  The engine (vsfs.c) and the formatter (mkfs.c) work on a memory-mapped image through
  typed pointers: the superblock, the two bitmaps and the inode table are reached through
  \<open>fs->sb\<close>, \<open>fs->ibmap\<close>, \<open>fs->dbmap\<close> and \<open>fs->itable\<close>, everything else (directory
  blocks, indirect blocks, file contents) through byte addresses computed by
  \<open>get_address\<close>. The model keeps that split: the four metadata regions are typed values,
  the image is a byte store addressed from the start of the image.

  A C call is modelled as a function into \<open>option\<close>. \<open>None\<close> stands for every run that
  does not return normally inside this model: a failed \<open>assert\<close>, an array index out of
  bounds, the use of an unassigned variable, a division by zero, and an access to bytes
  of the image that do not all lie in the data region (in C that access lands on the
  superblock, a bitmap, the inode table or outside the mapping; the typed regions are not
  byte-encoded here, so its effect is not described). Nothing is claimed about such a run.
  \<open>Some\<close> carries the C return value and the image the call leaves behind; an error
  return keeps whatever the call had already changed. The paths are the bytes of the C
  string before its terminator.
\<close>

type_synonym byte = "8 word"

type_synonym timespec = "int \<times> int"

text \<open>
  The header vsfs.h is not part of the sources. The constants it defines whose values
  the specification does not fix are parameters of the model.
\<close>

record vsfs_h =
  VSFS_MAGIC :: "64 word"
  VSFS_BLK_MIN :: nat
  VSFS_BLK_MAX :: nat
  VSFS_INO_MAX :: "32 word"
  VSFS_NAME_MAX :: nat
  VSFS_PATH_MAX :: nat
  VSFS_NUM_DIRECT :: nat
  sizeof_vsfs_inode :: nat

text \<open>Modelled from the spec: vsfs.h is missing; section 3 gives the block size.\<close>

definition VSFS_BLOCK_SIZE :: nat where
  "VSFS_BLOCK_SIZE = 4096"

text \<open>Modelled from the spec: vsfs.h is missing; section 3 puts the root directory in inode 0.\<close>

definition VSFS_ROOT_INO :: "32 word" where
  "VSFS_ROOT_INO = 0"

text \<open>Modelled from the spec: vsfs.h is missing; section 3 fixes the block numbers
  superblock = 0, inode bitmap = 1, data bitmap = 2, inode table from 3.\<close>

definition VSFS_SB_BLKNUM :: nat where
  "VSFS_SB_BLKNUM = 0"

definition VSFS_IMAP_BLKNUM :: nat where
  "VSFS_IMAP_BLKNUM = 1"

definition VSFS_DMAP_BLKNUM :: nat where
  "VSFS_DMAP_BLKNUM = 2"

definition VSFS_ITBL_BLKNUM :: nat where
  "VSFS_ITBL_BLKNUM = 3"

text \<open>Modelled from the spec: vsfs.h is missing; section 6 has 4-byte block numbers and
  the directory entry inode(4) | name[NAME_MAX+1].\<close>

definition sizeof_vsfs_blk_t :: nat where
  "sizeof_vsfs_blk_t = 4"

definition sizeof_name :: "vsfs_h \<Rightarrow> nat" where
  "sizeof_name c = VSFS_NAME_MAX c + 1"

definition sizeof_vsfs_dentry :: "vsfs_h \<Rightarrow> nat" where
  "sizeof_vsfs_dentry c = 4 + sizeof_name c"

text \<open>Modelled from the spec: vsfs.h is missing; the fields are those of section 6, with
  the widths given there.\<close>

record vsfs_superblock =
  magic :: "64 word"
  sb_size :: "64 word"
  num_inodes :: "32 word"
  free_inodes :: "32 word"
  num_blocks :: "32 word"
  free_blocks :: "32 word"
  data_region :: "32 word"

text \<open>Modelled from the spec: vsfs.h is missing; the fields are those of section 6.
  \<open>i_direct k\<close> is \<open>i_direct[k]\<close>, meaningful for \<open>k < VSFS_NUM_DIRECT\<close>; the callers
  below check the index where the C code can leave the array.\<close>

record vsfs_inode =
  i_mode :: "32 word"
  i_nlink :: "32 word"
  i_size :: "64 word"
  i_blocks :: "32 word"
  i_mtime :: timespec
  i_direct :: "nat \<Rightarrow> 32 word"
  i_indirect :: "32 word"

type_synonym bitmap_t = "nat \<Rightarrow> bool"

text \<open>The mounted image (fs_ctx.h): the typed views and the bytes of the image.\<close>

record fs_ctx =
  sb :: vsfs_superblock
  ibmap :: bitmap_t
  dbmap :: bitmap_t
  itable :: "32 word \<Rightarrow> vsfs_inode"
  image :: "nat \<Rightarrow> byte"

datatype errno = ENOENT | ENOMEM | EFBIG | ENOSPC | ENAMETOOLONG

section \<open>Bytes, words and C strings in the image\<close>

definition byte_of :: "char \<Rightarrow> byte" where
  "byte_of ch = of_nat (of_char ch)"

text \<open>A little-endian 32-bit load and store (section 6: little-endian host).\<close>

definition ld32 :: "(nat \<Rightarrow> byte) \<Rightarrow> nat \<Rightarrow> 32 word" where
  "ld32 m a = ucast (m a) OR push_bit 8 (ucast (m (a + 1)))
     OR push_bit 16 (ucast (m (a + 2))) OR push_bit 24 (ucast (m (a + 3)))"

definition st32 :: "(nat \<Rightarrow> byte) \<Rightarrow> nat \<Rightarrow> 32 word \<Rightarrow> (nat \<Rightarrow> byte)" where
  "st32 m a v = m(a := ucast v, a + 1 := ucast (drop_bit 8 v),
     a + 2 := ucast (drop_bit 16 v), a + 3 := ucast (drop_bit 24 v))"

text \<open>\<open>memcpy(image + a, buf, length buf)\<close>, \<open>memset(image + a, 0, n)\<close> and the bytes
  \<open>memcpy(buf, image + a, n)\<close> delivers.\<close>

definition store_bytes :: "(nat \<Rightarrow> byte) \<Rightarrow> nat \<Rightarrow> byte list \<Rightarrow> (nat \<Rightarrow> byte)" where
  "store_bytes m a buf = (\<lambda>x. if a \<le> x \<and> x < a + length buf then buf ! (x - a) else m x)"

definition zero_bytes :: "(nat \<Rightarrow> byte) \<Rightarrow> nat \<Rightarrow> nat \<Rightarrow> (nat \<Rightarrow> byte)" where
  "zero_bytes m a n = (\<lambda>x. if a \<le> x \<and> x < a + n then 0 else m x)"

definition load_bytes :: "(nat \<Rightarrow> byte) \<Rightarrow> nat \<Rightarrow> nat \<Rightarrow> byte list" where
  "load_bytes m a n = map (\<lambda>k. m (a + k)) [0..<n]"

text \<open>\<open>strcmp(p, image + a) == 0\<close> for a C string whose bytes before the terminator are
  \<open>p\<close>: the bytes agree and the image has the terminator where \<open>p\<close> ends.\<close>

fun strcmp_eq :: "string \<Rightarrow> (nat \<Rightarrow> byte) \<Rightarrow> nat \<Rightarrow> bool" where
  "strcmp_eq [] m a = (m a = 0)"
| "strcmp_eq (ch # p) m a = (m a = byte_of ch \<and> strcmp_eq p m (Suc a))"

text \<open>\<open>strlen(image + a)\<close>, scanning at most \<open>fuel\<close> bytes.\<close>

fun strlen_at :: "(nat \<Rightarrow> byte) \<Rightarrow> nat \<Rightarrow> nat \<Rightarrow> nat" where
  "strlen_at m a 0 = 0"
| "strlen_at m a (Suc fuel) = (if m a = 0 then 0 else Suc (strlen_at m (Suc a) fuel))"

section \<open>util.h\<close>

text \<open>\<open>div_round_up\<close> takes and returns \<open>uint32_t\<close>: the sum wraps at 32 bits.\<close>

definition div_round_up :: "32 word \<Rightarrow> 32 word \<Rightarrow> 32 word" where
  "div_round_up x y = (x + y - 1) div y"

section \<open>bitmap.h\<close>

text \<open>Modelled from the spec: bitmap.c is missing (bitmap.h only declares the functions).
  Section 4.1: init clears bits 0..N-1 and sets the remaining bits; alloc returns the
  smallest i < N with bit i clear and sets it, or reports FULL; free has the precondition
  that bit i is set (bitmap.h adds: the index is less than the number of bits) and clears
  it; set writes the given value. A bitmap occupies one block, so an init beyond
  \<open>8 * VSFS_BLOCK_SIZE\<close> bits would run past it.\<close>

definition bitmap_init :: "nat \<Rightarrow> bitmap_t option" where
  "bitmap_init nbits =
     (if nbits \<le> 8 * VSFS_BLOCK_SIZE then Some (\<lambda>i. \<not> i < nbits) else None)"

fun first_clear :: "bitmap_t \<Rightarrow> nat \<Rightarrow> nat \<Rightarrow> nat option" where
  "first_clear b i 0 = None"
| "first_clear b i (Suc k) = (if b i then first_clear b (Suc i) k else Some i)"

definition bitmap_alloc :: "bitmap_t \<Rightarrow> nat \<Rightarrow> (nat \<times> bitmap_t) option" where
  "bitmap_alloc b nbits =
     (case first_clear b 0 nbits of None \<Rightarrow> None | Some i \<Rightarrow> Some (i, b(i := True)))"

definition bitmap_free :: "bitmap_t \<Rightarrow> nat \<Rightarrow> nat \<Rightarrow> bitmap_t option" where
  "bitmap_free b nbits i = (if i < nbits \<and> b i then Some (b(i := False)) else None)"

definition bitmap_set :: "bitmap_t \<Rightarrow> nat \<Rightarrow> nat \<Rightarrow> bool \<Rightarrow> bitmap_t" where
  "bitmap_set b nbits i v = b(i := v)"

section \<open>vsfs.c: addressing and path lookup\<close>

text \<open>An access of \<open>n\<close> bytes at address \<open>a\<close> that the model describes: it lies in the
  data region of the image (an access of no bytes touches nothing).\<close>

definition data_range :: "fs_ctx \<Rightarrow> nat \<Rightarrow> nat \<Rightarrow> bool" where
  "data_range fs a n =
     (n = 0 \<or> (unat (data_region (sb fs)) * VSFS_BLOCK_SIZE \<le> a
               \<and> a + n \<le> unat (num_blocks (sb fs)) * VSFS_BLOCK_SIZE))"

text \<open>\<open>get_address(ino, offset)\<close>: the offset is a \<open>uint32_t\<close>. Below VSFS_NUM_DIRECT the
  block number comes from \<open>i_direct\<close>, otherwise from the array of block numbers stored in
  the indirect block, which is read from the image. The result is the byte address in the
  image.\<close>

definition get_address :: "vsfs_h \<Rightarrow> fs_ctx \<Rightarrow> vsfs_inode \<Rightarrow> 32 word \<Rightarrow> nat option" where
  "get_address c fs ino offset =
     (let block_num = unat offset div VSFS_BLOCK_SIZE in
      if block_num \<ge> VSFS_NUM_DIRECT c then
        (let block_num' = block_num - VSFS_NUM_DIRECT c;
             blocks = unat (i_indirect ino) * VSFS_BLOCK_SIZE;
             entry = blocks + sizeof_vsfs_blk_t * block_num' in
         if data_range fs entry sizeof_vsfs_blk_t
         then Some (unat (ld32 (image fs) entry) * VSFS_BLOCK_SIZE
                      + unat offset mod VSFS_BLOCK_SIZE)
         else None)
      else Some (unat (i_direct ino block_num) * VSFS_BLOCK_SIZE
                   + unat offset mod VSFS_BLOCK_SIZE))"

text \<open>\<open>get_dir_entry(ino, i)\<close>: the address of the i-th directory entry. The entry's inode
  number is the 32-bit word at that address, its name starts 4 bytes later.\<close>

definition get_dir_entry :: "vsfs_h \<Rightarrow> fs_ctx \<Rightarrow> vsfs_inode \<Rightarrow> nat \<Rightarrow> nat option" where
  "get_dir_entry c fs ino i = get_address c fs ino (of_nat (i * sizeof_vsfs_dentry c))"

definition dentry_ino :: "fs_ctx \<Rightarrow> nat \<Rightarrow> 32 word" where
  "dentry_ino fs a = ld32 (image fs) a"

definition dentry_name :: "nat \<Rightarrow> nat" where
  "dentry_name a = a + 4"

text \<open>The number of directory entries a loop of vsfs.c visits:
  \<open>VSFS_BLOCK_SIZE / sizeof(vsfs_dentry)\<close>.\<close>

definition dentries_per_block :: "vsfs_h \<Rightarrow> nat" where
  "dentries_per_block c = VSFS_BLOCK_SIZE div sizeof_vsfs_dentry c"

text \<open>The loop of \<open>path_lookup\<close> over the entries \<open>i, i + 1, ...\<close> (\<open>n\<close> of them): the first
  used entry whose name equals \<open>name\<close>, as its address.\<close>

fun find_dentry :: "vsfs_h \<Rightarrow> fs_ctx \<Rightarrow> string \<Rightarrow> nat \<Rightarrow> nat \<Rightarrow> nat option option" where
  "find_dentry c fs name i 0 = Some None"
| "find_dentry c fs name i (Suc n) =
     (case get_dir_entry c fs (itable fs 0) i of
        None \<Rightarrow> None
      | Some a \<Rightarrow>
          if \<not> data_range fs a (sizeof_vsfs_dentry c) then None
          else if dentry_ino fs a \<noteq> VSFS_INO_MAX c
                  \<and> strcmp_eq name (image fs) (dentry_name a)
          then Some (Some a)
          else find_dentry c fs name (Suc i) n)"

text \<open>\<open>path_lookup(path, &ino)\<close>: the return value and what \<open>*ino\<close> holds afterwards
  (\<open>None\<close> where the function leaves it unassigned).\<close>

definition path_lookup :: "vsfs_h \<Rightarrow> fs_ctx \<Rightarrow> string \<Rightarrow> (int \<times> 32 word option) option" where
  "path_lookup c fs path =
     (if path = [] then Some (-1, None)
      else if hd path \<noteq> CHR ''/'' then Some (-1, None)
      else if path = ''/'' then Some (0, Some VSFS_ROOT_INO)
      else
        (case find_dentry c fs (tl path) 0 (dentries_per_block c) of
           None \<Rightarrow> None
         | Some (Some a) \<Rightarrow> Some (0, Some (dentry_ino fs a))
         | Some None \<Rightarrow> Some (-1, Some (VSFS_INO_MAX c))))"

text \<open>\<open>&fs->itable[ino]\<close> for the inode number a lookup left in \<open>ino\<close>: undefined when the
  variable was never assigned or indexes past the table.\<close>

definition inode_at :: "fs_ctx \<Rightarrow> 32 word option \<Rightarrow> (32 word \<times> vsfs_inode) option" where
  "inode_at fs r =
     (case r of
        None \<Rightarrow> None
      | Some ino \<Rightarrow> if ino < num_inodes (sb fs) then Some (ino, itable fs ino) else None)"

section \<open>vsfs.c: getattr\<close>



section \<open>vsfs.c: create and unlink\<close>

text \<open>\<open>S_ISREG\<close> and \<open>S_IFDIR\<close> of the C library (octal 0170000, 0100000, 040000).\<close>

definition S_ISREG :: "32 word \<Rightarrow> bool" where
  "S_ISREG m = (m AND 61440 = 32768)"

definition S_IFDIR :: "32 word" where
  "S_IFDIR = 16384"

text \<open>\<open>strrchr(path, '/') + 1\<close>: what follows the last slash; undefined without a slash.\<close>

definition leaf_name :: "string \<Rightarrow> string option" where
  "leaf_name path =
     (if CHR ''/'' \<in> set path then Some (rev (takeWhile (\<lambda>ch. ch \<noteq> CHR ''/'') (rev path)))
      else None)"

text \<open>\<open>strcpy(image + a, name)\<close>: the bytes of the name and the terminator.\<close>

definition strcpy_to :: "(nat \<Rightarrow> byte) \<Rightarrow> nat \<Rightarrow> string \<Rightarrow> (nat \<Rightarrow> byte)" where
  "strcpy_to m a name = store_bytes m a (map byte_of name @ [0])"

text \<open>The loop of \<open>vsfs_create\<close> over the root directory: the first entry whose inode
  number is VSFS_INO_MAX.\<close>

fun find_unused :: "vsfs_h \<Rightarrow> fs_ctx \<Rightarrow> nat \<Rightarrow> nat \<Rightarrow> nat option option" where
  "find_unused c fs i 0 = Some None"
| "find_unused c fs i (Suc n) =
     (case get_dir_entry c fs (itable fs 0) i of
        None \<Rightarrow> None
      | Some a \<Rightarrow>
          if \<not> data_range fs a (sizeof_vsfs_dentry c) then None
          else if dentry_ino fs a = VSFS_INO_MAX c then Some (Some a)
          else find_unused c fs (Suc i) n)"

text \<open>\<open>vsfs_create(path, mode, fi)\<close>; \<open>now\<close> is what \<open>clock_gettime\<close> delivers.\<close>

definition vsfs_create ::
    "vsfs_h \<Rightarrow> timespec \<Rightarrow> fs_ctx \<Rightarrow> string \<Rightarrow> 32 word \<Rightarrow> ((errno + int) \<times> fs_ctx) option" where
  "vsfs_create c now fs path mode =
     (if \<not> S_ISREG mode then None
      else if free_inodes (sb fs) = 0 then Some (Inl ENOSPC, fs)
      else
        (case bitmap_alloc (ibmap fs) (unat (num_inodes (sb fs))) of
           None \<Rightarrow> Some (Inl ENOSPC, fs)
         | Some (new_ino, ib) \<Rightarrow>
             (let new_inode = \<lparr>i_mode = mode, i_nlink = 1, i_size = 0, i_blocks = 0,
                                i_mtime = now, i_direct = (\<lambda>k. 0), i_indirect = 0\<rparr>;
                  fs1 = fs\<lparr>ibmap := bitmap_set ib (unat (num_inodes (sb fs))) new_ino True,
                           itable := (itable fs)(of_nat new_ino := new_inode),
                           sb := (sb fs)\<lparr>free_inodes := free_inodes (sb fs) - 1\<rparr>\<rparr>
              in case find_unused c fs1 0 (dentries_per_block c) of
                   None \<Rightarrow> None
                 | Some None \<Rightarrow> Some (Inl ENOSPC, fs1)
                 | Some (Some a) \<Rightarrow>
                     (case leaf_name path of
                        None \<Rightarrow> None
                      | Some name \<Rightarrow>
                          if \<not> data_range fs1 (dentry_name a) (length name + 1) then None
                          else
                            Some (Inr 0,
                              fs1\<lparr>image := strcpy_to (st32 (image fs1) a (of_nat new_ino))
                                              (dentry_name a) name,
                                  itable := (itable fs1)(0 := (itable fs1 0)\<lparr>i_mtime := now\<rparr>)\<rparr>)))))"

text \<open>The block loop of \<open>vsfs_unlink\<close>, from index \<open>i\<close> for \<open>n\<close> rounds:
  \<open>bitmap_free(fs->dbmap, fs->sb->num_blocks, inode->i_direct[i]); fs->sb->free_blocks++\<close>.
  An index from VSFS_NUM_DIRECT on leaves the array \<open>i_direct\<close>.\<close>

fun free_direct :: "vsfs_h \<Rightarrow> vsfs_inode \<Rightarrow> nat \<Rightarrow> nat \<Rightarrow> fs_ctx \<Rightarrow> fs_ctx option" where
  "free_direct c inode i 0 fs = Some fs"
| "free_direct c inode i (Suc n) fs =
     (if i < VSFS_NUM_DIRECT c then
        (case bitmap_free (dbmap fs) (unat (num_blocks (sb fs))) (unat (i_direct inode i)) of
           None \<Rightarrow> None
         | Some db \<Rightarrow>
             free_direct c inode (Suc i) n
               (fs\<lparr>dbmap := db, sb := (sb fs)\<lparr>free_blocks := free_blocks (sb fs) + 1\<rparr>\<rparr>))
      else None)"

text \<open>\<open>vsfs_unlink(path)\<close>. The entry found is cleared by
  \<open>memset(dir_entry, 0, strlen(dir_entry->name))\<close>, which starts at the entry, not at its
  name; the name just compared equal to \<open>path + 1\<close>, so \<open>length path\<close> bytes are enough
  fuel for its \<open>strlen\<close>.\<close>

definition vsfs_unlink ::
    "vsfs_h \<Rightarrow> timespec \<Rightarrow> fs_ctx \<Rightarrow> string \<Rightarrow> ((errno + int) \<times> fs_ctx) option" where
  "vsfs_unlink c now fs path =
     (case path_lookup c fs path of
        None \<Rightarrow> None
      | Some (err, r) \<Rightarrow>
     (case inode_at fs r of
        None \<Rightarrow> None
      | Some (ino, inode0) \<Rightarrow>
     (let inode = inode0\<lparr>i_nlink := i_nlink inode0 - 1\<rparr>;
          fs1 = fs\<lparr>itable := (itable fs)(ino := inode)\<rparr>
      in
     (case (if i_nlink inode = 0 then
              (case bitmap_free (ibmap fs1) (unat (num_inodes (sb fs1))) (unat ino) of
                 None \<Rightarrow> None
               | Some ib \<Rightarrow>
                   Some (fs1\<lparr>ibmap := ib,
                             sb := (sb fs1)\<lparr>free_inodes := free_inodes (sb fs1) + 1\<rparr>\<rparr>))
            else Some fs1) of
        None \<Rightarrow> None
      | Some fs2 \<Rightarrow>
     (case free_direct c inode 0 (unat (i_blocks inode)) fs2 of
        None \<Rightarrow> None
      | Some fs3 \<Rightarrow>
     (case find_dentry c fs3 (tl path) 0 (dentries_per_block c) of
        None \<Rightarrow> None
      | Some None \<Rightarrow> Some (Inr 0, fs3)
      | Some (Some a) \<Rightarrow>
          (let n = strlen_at (image fs3) (dentry_name a) (length path) in
           if \<not> data_range fs3 a n then None
           else
             Some (Inr 0,
               fs3\<lparr>image := st32 (zero_bytes (image fs3) a n) a (VSFS_INO_MAX c),
                   itable := (itable fs3)(0 := (itable fs3 0)\<lparr>i_mtime := now\<rparr>)\<rparr>))))))))"

section \<open>vsfs.c: truncate, read and write\<close>

text \<open>The allocation loop of \<open>vsfs_truncate\<close>, \<open>n\<close> rounds: \<open>bitmap_alloc\<close> on the data
  bitmap, \<open>bitmap_set\<close> of the bit found, \<open>free_blocks--\<close>. The block number found is not
  stored anywhere else. \<open>False\<close> is the \<open>return -ENOSPC\<close> inside the loop.\<close>

fun alloc_blocks :: "nat \<Rightarrow> fs_ctx \<Rightarrow> bool \<times> fs_ctx" where
  "alloc_blocks 0 fs = (True, fs)"
| "alloc_blocks (Suc n) fs =
     (case bitmap_alloc (dbmap fs) (unat (num_blocks (sb fs))) of
        None \<Rightarrow> (False, fs)
      | Some (block_num, db) \<Rightarrow>
          alloc_blocks n
            (fs\<lparr>dbmap := bitmap_set db (unat (num_blocks (sb fs))) block_num True,
                sb := (sb fs)\<lparr>free_blocks := free_blocks (sb fs) - 1\<rparr>\<rparr>))"

text \<open>The freeing loop of \<open>vsfs_truncate\<close>, from round \<open>i\<close> for \<open>n\<close> rounds:
  \<open>bitmap_free(fs->dbmap, fs->sb->num_blocks, ino->i_direct[VSFS_NUM_DIRECT - 1 - i]);
  fs->sb->free_blocks++\<close>.\<close>

fun free_tail :: "vsfs_h \<Rightarrow> vsfs_inode \<Rightarrow> nat \<Rightarrow> nat \<Rightarrow> fs_ctx \<Rightarrow> fs_ctx option" where
  "free_tail c ino i 0 fs = Some fs"
| "free_tail c ino i (Suc n) fs =
     (case bitmap_free (dbmap fs) (unat (num_blocks (sb fs)))
             (unat (i_direct ino (VSFS_NUM_DIRECT c - 1 - i))) of
        None \<Rightarrow> None
      | Some db \<Rightarrow>
          free_tail c ino (Suc i) n
            (fs\<lparr>dbmap := db, sb := (sb fs)\<lparr>free_blocks := free_blocks (sb fs) + 1\<rparr>\<rparr>))"

text \<open>The end of \<open>vsfs_truncate\<close>: size, block count and mtime of the inode.\<close>

definition set_size :: "timespec \<Rightarrow> 32 word \<Rightarrow> 64 word \<Rightarrow> 32 word \<Rightarrow> fs_ctx \<Rightarrow> fs_ctx" where
  "set_size now ino_num sz block_size fs =
     fs\<lparr>itable := (itable fs)(ino_num :=
          (itable fs ino_num)\<lparr>i_size := sz, i_blocks := block_size, i_mtime := now\<rparr>)\<rparr>"

text \<open>\<open>vsfs_truncate(path, size)\<close>; \<open>sz\<close> is the \<open>off_t\<close> argument \<open>size\<close> read as
  the \<open>uint64_t\<close> the code casts it to. \<open>div_round_up\<close> receives its low 32 bits. The
  \<open>memset\<close> is one call from \<open>get_address(ino, ino->i_size)\<close>; it is described when the
  bytes it zeroes lie in the data region. For a file whose block pointer is 0, as
  \<open>vsfs_create\<close> leaves it and the allocation loop never changes it, the \<open>memset\<close> starts
  in the superblock and the call is \<open>None\<close>: nothing is claimed about that run.\<close>

definition vsfs_truncate ::
    "vsfs_h \<Rightarrow> timespec \<Rightarrow> fs_ctx \<Rightarrow> string \<Rightarrow> 64 word \<Rightarrow> ((errno + int) \<times> fs_ctx) option" where
  "vsfs_truncate c now fs path sz =
     (let block_size = div_round_up (ucast sz) (of_nat VSFS_BLOCK_SIZE) in
      if unat block_size > VSFS_NUM_DIRECT c + VSFS_BLOCK_SIZE div sizeof_vsfs_blk_t
      then Some (Inl EFBIG, fs)
      else
     (case path_lookup c fs path of
        None \<Rightarrow> None
      | Some (err, r) \<Rightarrow>
     (case inode_at fs r of
        None \<Rightarrow> None
      | Some (ino_num, ino) \<Rightarrow>
          if sz = i_size ino then Some (Inr 0, fs)
          else
     (case (if sz > i_size ino then
              (case get_address c fs ino (ucast (i_size ino)) of
                 None \<Rightarrow> None
               | Some a \<Rightarrow>
                   if data_range fs a (unat (sz - i_size ino))
                   then Some (fs\<lparr>image := zero_bytes (image fs) a (unat (sz - i_size ino))\<rparr>)
                   else None)
            else Some fs) of
        None \<Rightarrow> None
      | Some fs1 \<Rightarrow>
          if block_size > i_blocks ino then
            (let num_to_allocate =
                   (if unat (block_size - i_blocks ino) > VSFS_NUM_DIRECT c
                    then VSFS_NUM_DIRECT c else unat (block_size - i_blocks ino))
             in case alloc_blocks num_to_allocate fs1 of
                  (False, fs2) \<Rightarrow> Some (Inl ENOSPC, fs2)
                | (True, fs2) \<Rightarrow> Some (Inr 0, set_size now ino_num sz block_size fs2))
          else
            (let num_to_free =
                   (if unat (i_blocks ino - block_size) > VSFS_NUM_DIRECT c
                    then VSFS_NUM_DIRECT c else unat (i_blocks ino - block_size))
             in case free_tail c ino 0 num_to_free fs1 of
                  None \<Rightarrow> None
                | Some fs2 \<Rightarrow> Some (Inr 0, set_size now ino_num sz block_size fs2))))))"

text \<open>\<open>vsfs_read(path, buf, size, offset, fi)\<close>, with \<open>sz\<close> for \<open>size\<close>: the return value
  \<open>(int) size\<close> and the bytes copied to the start of \<open>buf\<close>. The \<open>memcpy\<close> is one call from
  \<open>get_address(inode, offset)\<close>, described when the bytes it reads lie in the data
  region.\<close>

definition vsfs_read ::
    "vsfs_h \<Rightarrow> fs_ctx \<Rightarrow> string \<Rightarrow> 64 word \<Rightarrow> 64 word \<Rightarrow> (int \<times> byte list) option" where
  "vsfs_read c fs path sz offset =
     (case path_lookup c fs path of
        None \<Rightarrow> None
      | Some (err, r) \<Rightarrow>
     (case inode_at fs r of
        None \<Rightarrow> None
      | Some (ino, inode) \<Rightarrow>
          if i_size inode < offset then Some (0, [])
          else
            (let sz' = (if i_size inode < offset + sz then i_size inode - offset else sz)
             in case get_address c fs inode (ucast offset) of
                  None \<Rightarrow> None
                | Some a \<Rightarrow>
                    if data_range fs a (unat sz')
                    then Some (sint (ucast sz' :: 32 word),
                               load_bytes (image fs) a (unat sz'))
                    else None)))"

text \<open>\<open>vsfs_write(path, buf, size, offset, fi)\<close>, with \<open>sz\<close> for \<open>size\<close>, the length of
  \<open>buf\<close>. The \<open>memcpy\<close> is one call to \<open>get_address(inode, offset)\<close>, described when the
  bytes it writes lie in the data region (and so is the \<open>memset\<close> of \<open>vsfs_truncate\<close>
  when the file is extended); a write of at least one byte to a file whose block pointer
  is 0 is \<open>None\<close>.\<close>

definition vsfs_write ::
    "vsfs_h \<Rightarrow> timespec \<Rightarrow> fs_ctx \<Rightarrow> string \<Rightarrow> byte list \<Rightarrow> 64 word
       \<Rightarrow> ((errno + int) \<times> fs_ctx) option" where
  "vsfs_write c now fs path buf offset =
     (let sz = (of_nat (length buf) :: 64 word) in
     (case path_lookup c fs path of
        None \<Rightarrow> None
      | Some (err, r) \<Rightarrow>
     (case inode_at fs r of
        None \<Rightarrow> None
      | Some (ino, inode) \<Rightarrow>
          if i_size inode < offset then Some (Inl EFBIG, fs)
          else
     (case (if i_size inode < offset + sz then vsfs_truncate c now fs path (offset + sz)
            else Some (Inr 0,
                   fs\<lparr>itable := (itable fs)(ino :=
                        inode\<lparr>i_size := i_size inode + sz,
                              i_blocks := i_blocks inode
                                + div_round_up (ucast sz) (of_nat VSFS_BLOCK_SIZE)\<rparr>)\<rparr>)) of
        None \<Rightarrow> None
      | Some (Inl e, fs1) \<Rightarrow> Some (Inl e, fs1)
      | Some (Inr res, fs1) \<Rightarrow>
          (case get_address c fs1 (itable fs1 ino) (ucast offset) of
             None \<Rightarrow> None
           | Some a \<Rightarrow>
               if data_range fs1 a (length buf)
               then Some (Inr (sint (ucast sz :: 32 word)),
                      fs1\<lparr>image := store_bytes (image fs1) a buf,
                          itable := (itable fs1)(ino := (itable fs1 ino)\<lparr>i_mtime := now\<rparr>)\<rparr>)
               else None)))))"

section \<open>mkfs.c: the formatter\<close>

text \<open>The options of mkfs.c that the formatter reads.\<close>

record mkfs_opts =
  n_inodes :: "64 word"
  force :: bool
  zero :: bool

definition vsfs_is_present :: "vsfs_h \<Rightarrow> fs_ctx \<Rightarrow> bool" where
  "vsfs_is_present c img = (magic (sb img) = VSFS_MAGIC c)"

text \<open>The loop \<open>for (i = 0; i < ino_table_size; i++)
  bitmap_set(dbmap, nblks, VSFS_DMAP_BLKNUM + 1 + i, true)\<close>, from round \<open>i\<close> for \<open>n\<close>
  rounds.\<close>

fun mark_itable :: "nat \<Rightarrow> nat \<Rightarrow> nat \<Rightarrow> bitmap_t \<Rightarrow> bitmap_t" where
  "mark_itable nblks i 0 b = b"
| "mark_itable nblks i (Suc n) b =
     mark_itable nblks (Suc i) n (bitmap_set b nblks (VSFS_DMAP_BLKNUM + 1 + i) True)"

text \<open>\<open>strncpy(image + a, name, n)\<close>: the name, then zero bytes up to \<open>n\<close> bytes in all.\<close>

definition strncpy_to :: "(nat \<Rightarrow> byte) \<Rightarrow> nat \<Rightarrow> string \<Rightarrow> nat \<Rightarrow> (nat \<Rightarrow> byte)" where
  "strncpy_to m a name n =
     store_bytes m a (take n (map byte_of name @ replicate (n - length name) 0))"

text \<open>The loop \<open>for (i = 2; i < div_round_up(VSFS_BLOCK_SIZE, sizeof(vsfs_dentry)); i++)
  root_entries[i].ino = VSFS_INO_MAX\<close>, from entry \<open>i\<close> for \<open>n\<close> rounds; \<open>a\<close> is the address
  of \<open>root_entries\<close>.\<close>

fun clear_entries :: "vsfs_h \<Rightarrow> nat \<Rightarrow> nat \<Rightarrow> nat \<Rightarrow> (nat \<Rightarrow> byte) \<Rightarrow> (nat \<Rightarrow> byte)" where
  "clear_entries c a i 0 m = m"
| "clear_entries c a i (Suc n) m =
     clear_entries c a (Suc i) n (st32 m (a + i * sizeof_vsfs_dentry c) (VSFS_INO_MAX c))"

text \<open>\<open>mkfs(image, size, opts)\<close>; \<open>clock\<close> is what \<open>clock_gettime\<close> delivers, \<open>None\<close> when it
  fails; \<open>sz\<close> is the argument \<open>size\<close>. The root directory block is written through
  \<open>image + i_direct[0] * VSFS_BLOCK_SIZE\<close>; the model describes the run when that block
  lies behind the inode table (block 3 holds the root inode) and its entries end inside
  the image. The block \<open>bitmap_alloc\<close> returns is block 3 when the inode table has no
  block, that is for \<open>n_inodes = 0\<close>: \<open>mkfs\<close> has no test for it and would write the
  directory entries over the root inode and return true, a run this model does not
  describe (\<open>None\<close>). \<open>parse_args\<close> returns false for an inode count of 0, and \<open>main\<close>
  then returns before it calls \<open>mkfs\<close>, so \<open>mkfs\<close> is never called with it; the theorems
  about \<open>mkfs\<close> take \<open>n_inodes \<noteq> 0\<close> as a hypothesis.\<close>

definition mkfs ::
    "vsfs_h \<Rightarrow> timespec option \<Rightarrow> fs_ctx \<Rightarrow> 64 word \<Rightarrow> mkfs_opts \<Rightarrow> (bool \<times> fs_ctx) option" where
  "mkfs c clock img sz opts =
     (let nblks = (ucast (sz div of_nat VSFS_BLOCK_SIZE) :: 32 word);
          inodes_per_block = (of_nat (VSFS_BLOCK_SIZE div sizeof_vsfs_inode c) :: 32 word)
      in
      if n_inodes opts \<ge> ucast (VSFS_INO_MAX c) then Some (False, img)
      else if unat nblks > VSFS_BLK_MAX c \<or> unat nblks < VSFS_BLK_MIN c then Some (False, img)
      else
     (case bitmap_init (unat (n_inodes opts)) of
        None \<Rightarrow> None
      | Some ib \<Rightarrow>
     (case bitmap_init (unat nblks) of
        None \<Rightarrow> None
      | Some db \<Rightarrow>
          if inodes_per_block = 0 then None
          else
     (let db1 = bitmap_set db (unat nblks) VSFS_SB_BLKNUM True;
          db2 = bitmap_set db1 (unat nblks) VSFS_IMAP_BLKNUM True;
          db3 = bitmap_set db2 (unat nblks) VSFS_DMAP_BLKNUM True;
          ino_table_size = div_round_up (ucast (n_inodes opts)) inodes_per_block;
          db4 = mark_itable (unat nblks) 0 (unat ino_table_size) db3;
          ib1 = bitmap_set ib (unat (n_inodes opts)) (unat VSFS_ROOT_INO) True;
          img1 = img\<lparr>ibmap := ib1, dbmap := db4\<rparr>
      in
     (case clock of
        None \<Rightarrow> Some (False, img1)
      | Some now \<Rightarrow>
     (let root_ino = (itable img1 VSFS_ROOT_INO)
                       \<lparr>i_mtime := now, i_mode := S_IFDIR OR 511, i_nlink := 2,
                        i_size := of_nat VSFS_BLOCK_SIZE, i_blocks := 1\<rparr>;
          img2 = img1\<lparr>itable := (itable img1)(VSFS_ROOT_INO := root_ino)\<rparr>
      in
     (case bitmap_alloc (dbmap img2) (unat nblks) of
        None \<Rightarrow> Some (False, img2)
      | Some (blk, db5) \<Rightarrow>
     (let root_ino' = root_ino\<lparr>i_direct := (i_direct root_ino)(0 := of_nat blk)\<rparr>;
          root_entries = blk * VSFS_BLOCK_SIZE;
          n_entries = unat (div_round_up (of_nat VSFS_BLOCK_SIZE) (of_nat (sizeof_vsfs_dentry c)))
      in
      if blk \<le> VSFS_ITBL_BLKNUM \<or> blk < VSFS_ITBL_BLKNUM + unat ino_table_size
         \<or> root_entries + max 2 n_entries * sizeof_vsfs_dentry c > unat nblks * VSFS_BLOCK_SIZE
      then None
      else
     (let m0 = st32 (image img2) root_entries VSFS_ROOT_INO;
          m1 = strncpy_to m0 (dentry_name root_entries) ''.'' (sizeof_name c);
          m2 = st32 m1 (root_entries + sizeof_vsfs_dentry c) VSFS_ROOT_INO;
          m3 = strncpy_to m2 (dentry_name (root_entries + sizeof_vsfs_dentry c)) ''..''
                 (sizeof_name c);
          m4 = clear_entries c root_entries 2 (n_entries - 2) m3;
          sb' = \<lparr>magic = VSFS_MAGIC c, sb_size = sz,
                 num_inodes = ucast (n_inodes opts),
                 free_inodes = ucast (n_inodes opts - 1),
                 num_blocks = nblks,
                 free_blocks = nblks - of_nat VSFS_DMAP_BLKNUM - ino_table_size - 2,
                 data_region = of_nat VSFS_ITBL_BLKNUM + ino_table_size\<rparr>
      in Some (True,
           img2\<lparr>dbmap := db5, itable := (itable img2)(VSFS_ROOT_INO := root_ino'),
                image := m4, sb := sb'\<rparr>))))))))))"

text \<open>The image after \<open>memset(image, 0, fsize)\<close>.\<close>

definition zero_image :: fs_ctx where
  "zero_image =
     \<lparr>sb = \<lparr>magic = 0, sb_size = 0, num_inodes = 0, free_inodes = 0, num_blocks = 0,
            free_blocks = 0, data_region = 0\<rparr>,
      ibmap = (\<lambda>i. False), dbmap = (\<lambda>i. False),
      itable = (\<lambda>n. \<lparr>i_mode = 0, i_nlink = 0, i_size = 0, i_blocks = 0, i_mtime = (0, 0),
                      i_direct = (\<lambda>k. 0), i_indirect = 0\<rparr>),
      image = (\<lambda>a. 0)\<rparr>"

text \<open>\<open>main\<close> of mkfs.c once the arguments are parsed and the image is mapped: the
  refusal to overwrite an existing file system without \<open>-f\<close>, the optional zeroing, and
  \<open>mkfs\<close>. The result says whether the run reached \<open>ret = 0\<close>, with the image it leaves.\<close>

definition mkfs_main ::
    "vsfs_h \<Rightarrow> timespec option \<Rightarrow> fs_ctx \<Rightarrow> 64 word \<Rightarrow> mkfs_opts \<Rightarrow> (bool \<times> fs_ctx) option" where
  "mkfs_main c clock img fsize opts =
     (if \<not> force opts \<and> vsfs_is_present c img then Some (False, img)
      else mkfs c clock (if zero opts then zero_image else img) fsize opts)"

section \<open>The indirect-block entry behind an offset\<close>



section \<open>Concrete images\<close>

text \<open>One set of values the constants of vsfs.h can take, consistent with sections 3 and
  6: a 252-byte name buffer makes a 256-byte directory entry (16 in a block), an inode record
  of 64 bytes, five direct pointers, an all-ones VSFS_INO_MAX.\<close>

definition hdr :: vsfs_h where
  "hdr = \<lparr>VSFS_MAGIC = 0xC5C369A4C5C369A4, VSFS_BLK_MIN = 16, VSFS_BLK_MAX = 32768,
          VSFS_INO_MAX = 0xFFFFFFFF, VSFS_NAME_MAX = 251, VSFS_PATH_MAX = 4096,
          VSFS_NUM_DIRECT = 5, sizeof_vsfs_inode = 64\<rparr>"

text \<open>Directory entries written one after the other from address \<open>a\<close>.\<close>

fun put_entries ::
    "vsfs_h \<Rightarrow> nat \<Rightarrow> (32 word \<times> string) list \<Rightarrow> (nat \<Rightarrow> byte) \<Rightarrow> (nat \<Rightarrow> byte)" where
  "put_entries c a [] m = m"
| "put_entries c a ((ino, name) # es) m =
     put_entries c (a + sizeof_vsfs_dentry c) es (strcpy_to (st32 m a ino) (dentry_name a) name)"

definition zero_inode :: vsfs_inode where
  "zero_inode = \<lparr>i_mode = 0, i_nlink = 0, i_size = 0, i_blocks = 0, i_mtime = (0, 0),
                  i_direct = (\<lambda>k. 0), i_indirect = 0\<rparr>"

text \<open>A root directory inode (mode S_IFDIR | 0777) whose directory block is \<open>blk\<close>.\<close>

definition root_inode :: "32 word \<Rightarrow> vsfs_inode" where
  "root_inode blk = \<lparr>i_mode = 16895, i_nlink = 2, i_size = 4096, i_blocks = 1,
                      i_mtime = (0, 0), i_direct = (\<lambda>k. 0)(0 := blk), i_indirect = 0\<rparr>"

text \<open>The bytes of an image whose block 4 is a directory block of sixteen unused entries
  (inode number 0xFFFFFFFF, empty name) and whose other bytes are 0xAA.\<close>

definition blank_bytes :: "nat \<Rightarrow> byte" where
  "blank_bytes = (\<lambda>a. if a div 4096 = 4 then (if a mod 256 < 4 then 255 else 0) else 170)"

text \<open>An image of 64 blocks and 32 inodes, inode table in block 3, root directory in
  block 4, with one regular file /hello (mode 0100644): inode 1, 100 bytes, its one block
  is block 5.\<close>

definition img_hello :: fs_ctx where
  "img_hello =
     \<lparr>sb = \<lparr>magic = 0xC5C369A4C5C369A4, sb_size = 262144, num_inodes = 32, free_inodes = 30,
            num_blocks = 64, free_blocks = 58, data_region = 4\<rparr>,
      ibmap = (\<lambda>i. i < 2 \<or> 32 \<le> i),
      dbmap = (\<lambda>i. i < 6 \<or> 64 \<le> i),
      itable = (\<lambda>n. zero_inode)
        (0 := root_inode 4,
         1 := \<lparr>i_mode = 33188, i_nlink = 1, i_size = 100, i_blocks = 1, i_mtime = (0, 0),
                i_direct = (\<lambda>k. 0)(0 := 5), i_indirect = 0\<rparr>),
      image = put_entries hdr 16384 [(0, ''.''), (0, ''..''), (1, ''hello'')] blank_bytes\<rparr>"


text \<open>The options \<open>-i 32\<close>, and the image a successful format of a zeroed image of 64
  blocks with them leaves.\<close>

definition opts32 :: mkfs_opts where
  "opts32 = \<lparr>n_inodes = 32, force = False, zero = False\<rparr>"

definition img_fresh :: fs_ctx where
  "img_fresh =
     (case mkfs hdr (Some (7, 0)) zero_image 262144 opts32 of
        Some (ok, img') \<Rightarrow> img'
      | None \<Rightarrow> zero_image)"

text \<open>Options with an inode count that \<open>mkfs\<close> rejects, and \<open>-f\<close>.\<close>

definition opts_bad :: mkfs_opts where
  "opts_bad = \<lparr>n_inodes = 4294967295, force = True, zero = False\<rparr>"

text \<open>The image after \<open>truncate("/hello", 5000)\<close> on \<open>img_hello\<close>.\<close>

definition img_hello_5000 :: fs_ctx where
  "img_hello_5000 =
     (case vsfs_truncate hdr (9, 0) img_hello ''/hello'' 5000 of
        Some (r, fs') \<Rightarrow> fs'
      | None \<Rightarrow> img_hello)"

text \<open>An image of 512 blocks and 32 inodes with one regular file /big of 24480 bytes,
  inode 1: its first five blocks are blocks 5 to 9, its sixth block is block 257, listed
  in the first entry of its indirect block, block 258. Block 256 is free; its bytes are
  0xAA.\<close>

definition img_big :: fs_ctx where
  "img_big =
     \<lparr>sb = \<lparr>magic = 0xC5C369A4C5C369A4, sb_size = 2097152, num_inodes = 32, free_inodes = 30,
            num_blocks = 512, free_blocks = 500, data_region = 4\<rparr>,
      ibmap = (\<lambda>i. i < 2 \<or> 32 \<le> i),
      dbmap = (\<lambda>i. i < 10 \<or> i = 257 \<or> i = 258 \<or> 512 \<le> i),
      itable = (\<lambda>n. zero_inode)
        (0 := root_inode 4,
         1 := \<lparr>i_mode = 33188, i_nlink = 1, i_size = 24480, i_blocks = 6, i_mtime = (0, 0),
                i_direct = (\<lambda>k. 0)(0 := 5, 1 := 6, 2 := 7, 3 := 8, 4 := 9),
                i_indirect = 258\<rparr>),
      image = st32 (put_entries hdr 16384 [(0, ''.''), (0, ''..''), (1, ''big'')] blank_bytes)
                1056768 257\<rparr>"

text \<open>The image after \<open>truncate("/big", 24577)\<close> on \<open>img_big\<close>.\<close>

definition img_big_up :: fs_ctx where
  "img_big_up =
     (case vsfs_truncate hdr (9, 0) img_big ''/big'' 24577 of
        Some (r, fs') \<Rightarrow> fs'
      | None \<Rightarrow> img_big)"





text \<open>The image after \<open>create("/hi", 0100644)\<close> on the freshly formatted image, and the
  image after \<open>unlink("/hi")\<close> on that.\<close>

definition img_hi :: fs_ctx where
  "img_hi =
     (case vsfs_create hdr (8, 0) img_fresh ''/hi'' 33188 of
        Some (r, fs') \<Rightarrow> fs'
      | None \<Rightarrow> img_fresh)"

definition img_hi_gone :: fs_ctx where
  "img_hi_gone =
     (case vsfs_unlink hdr (9, 0) img_hi ''/hi'' of
        Some (r, fs') \<Rightarrow> fs'
      | None \<Rightarrow> img_hi)"

text \<open>The image \<open>img_hello\<close> with a second link to /hello counted in its inode, and the
  image after \<open>unlink("/hello")\<close> on that.\<close>

definition img_linked :: fs_ctx where
  "img_linked = img_hello\<lparr>itable := (itable img_hello)(1 := (itable img_hello 1)\<lparr>i_nlink := 2\<rparr>)\<rparr>"

definition img_linked_gone :: fs_ctx where
  "img_linked_gone =
     (case vsfs_unlink hdr (9, 0) img_linked ''/hello'' of
        Some (r, fs') \<Rightarrow> fs'
      | None \<Rightarrow> img_linked)"

text \<open>An image of 64 blocks and 32 inodes whose root directory is full: ".", ".." and
  the fourteen empty files /a to /n, inodes 1 to 14, as \<open>vsfs_create\<close> initialises them.
  And the image after \<open>create("/o", 0100644)\<close> on it.\<close>

definition img_full :: fs_ctx where
  "img_full =
     \<lparr>sb = \<lparr>magic = 0xC5C369A4C5C369A4, sb_size = 262144, num_inodes = 32, free_inodes = 17,
            num_blocks = 64, free_blocks = 59, data_region = 4\<rparr>,
      ibmap = (\<lambda>i. i < 15 \<or> 32 \<le> i),
      dbmap = (\<lambda>i. i < 5 \<or> 64 \<le> i),
      itable = (\<lambda>n. if 1 \<le> n \<and> n \<le> 14
                     then \<lparr>i_mode = 33188, i_nlink = 1, i_size = 0, i_blocks = 0,
                           i_mtime = (8, 0), i_direct = (\<lambda>k. 0), i_indirect = 0\<rparr>
                     else zero_inode)
        (0 := root_inode 4),
      image = put_entries hdr 16384
                [(0, ''.''), (0, ''..''), (1, ''a''), (2, ''b''), (3, ''c''), (4, ''d''),
                 (5, ''e''), (6, ''f''), (7, ''g''), (8, ''h''), (9, ''i''), (10, ''j''),
                 (11, ''k''), (12, ''l''), (13, ''m''), (14, ''n'')] blank_bytes\<rparr>"

definition img_full_o :: fs_ctx where
  "img_full_o =
     (case vsfs_create hdr (8, 0) img_full ''/o'' 33188 of
        Some (r, fs') \<Rightarrow> fs'
      | None \<Rightarrow> img_full)"

text \<open>The image \<open>img_hello\<close> with /hello grown to two blocks, blocks 5 and 6, and 8192
  bytes; and the image after \<open>truncate("/hello", 4096)\<close> on it.\<close>

definition img_two :: fs_ctx where
  "img_two =
     img_hello\<lparr>sb := (sb img_hello)\<lparr>free_blocks := 57\<rparr>,
               dbmap := (\<lambda>i. i < 7 \<or> 64 \<le> i),
               itable := (itable img_hello)(1 := (itable img_hello 1)
                  \<lparr>i_size := 8192, i_blocks := 2, i_direct := (\<lambda>k. 0)(0 := 5, 1 := 6)\<rparr>)\<rparr>"

definition img_two_cut :: fs_ctx where
  "img_two_cut =
     (case vsfs_truncate hdr (9, 0) img_two ''/hello'' 4096 of
        Some (r, fs') \<Rightarrow> fs'
      | None \<Rightarrow> img_two)"

text \<open>The number of clear bits of a bitmap among the \<open>n\<close> bits from bit \<open>i\<close> on.\<close>

fun count_clear :: "bitmap_t \<Rightarrow> nat \<Rightarrow> nat \<Rightarrow> nat" where
  "count_clear b i 0 = 0"
| "count_clear b i (Suc n) = (if b i then 0 else 1) + count_clear b (Suc i) n"

section \<open>Evaluation rules\<close>

lemma Suc_Suc_0: "Suc (Suc 0) = 2"
  by simp

lemma first_clear_numeral:
  "first_clear b i (numeral k) =
     (if b i then first_clear b (Suc i) (pred_numeral k) else Some i)"
  by (simp add: numeral_eq_Suc)

lemma find_dentry_numeral:
  "find_dentry c fs name i (numeral k) =
     (case get_dir_entry c fs (itable fs 0) i of
        None \<Rightarrow> None
      | Some a \<Rightarrow>
          if \<not> data_range fs a (sizeof_vsfs_dentry c) then None
          else if dentry_ino fs a \<noteq> VSFS_INO_MAX c
                  \<and> strcmp_eq name (image fs) (dentry_name a)
          then Some (Some a)
          else find_dentry c fs name (Suc i) (pred_numeral k))"
  by (simp add: numeral_eq_Suc)

lemma find_unused_numeral:
  "find_unused c fs i (numeral k) =
     (case get_dir_entry c fs (itable fs 0) i of
        None \<Rightarrow> None
      | Some a \<Rightarrow>
          if \<not> data_range fs a (sizeof_vsfs_dentry c) then None
          else if dentry_ino fs a = VSFS_INO_MAX c then Some (Some a)
          else find_unused c fs (Suc i) (pred_numeral k))"
  by (simp add: numeral_eq_Suc)

lemma mark_itable_numeral:
  "mark_itable nblks i (numeral k) b =
     mark_itable nblks (Suc i) (pred_numeral k)
       (bitmap_set b nblks (VSFS_DMAP_BLKNUM + 1 + i) True)"
  by (simp add: numeral_eq_Suc)

lemma clear_entries_numeral:
  "clear_entries c a i (numeral k) m =
     clear_entries c a (Suc i) (pred_numeral k)
       (st32 m (a + i * sizeof_vsfs_dentry c) (VSFS_INO_MAX c))"
  by (simp add: numeral_eq_Suc)

lemma alloc_blocks_numeral:
  "alloc_blocks (numeral k) fs =
     (case bitmap_alloc (dbmap fs) (unat (num_blocks (sb fs))) of
        None \<Rightarrow> (False, fs)
      | Some (block_num, db) \<Rightarrow>
          alloc_blocks (pred_numeral k)
            (fs\<lparr>dbmap := bitmap_set db (unat (num_blocks (sb fs))) block_num True,
                sb := (sb fs)\<lparr>free_blocks := free_blocks (sb fs) - 1\<rparr>\<rparr>))"
  by (simp add: numeral_eq_Suc)

lemma free_tail_numeral:
  "free_tail c ino i (numeral k) fs =
     (case bitmap_free (dbmap fs) (unat (num_blocks (sb fs)))
             (unat (i_direct ino (VSFS_NUM_DIRECT c - 1 - i))) of
        None \<Rightarrow> None
      | Some db \<Rightarrow>
          free_tail c ino (Suc i) (pred_numeral k)
            (fs\<lparr>dbmap := db, sb := (sb fs)\<lparr>free_blocks := free_blocks (sb fs) + 1\<rparr>\<rparr>))"
  by (simp add: numeral_eq_Suc)

lemma free_direct_numeral:
  "free_direct c inode i (numeral k) fs =
     (if i < VSFS_NUM_DIRECT c then
        (case bitmap_free (dbmap fs) (unat (num_blocks (sb fs))) (unat (i_direct inode i)) of
           None \<Rightarrow> None
         | Some db \<Rightarrow>
             free_direct c inode (Suc i) (pred_numeral k)
               (fs\<lparr>dbmap := db, sb := (sb fs)\<lparr>free_blocks := free_blocks (sb fs) + 1\<rparr>\<rparr>))
      else None)"
  by (simp add: numeral_eq_Suc)

lemma strlen_at_numeral:
  "strlen_at m a (numeral k) =
     (if m a = 0 then 0 else Suc (strlen_at m (Suc a) (pred_numeral k)))"
  by (simp add: numeral_eq_Suc)

lemmas loop_numerals = Suc_Suc_0 first_clear_numeral find_dentry_numeral find_unused_numeral
  mark_itable_numeral clear_entries_numeral alloc_blocks_numeral free_tail_numeral
  free_direct_numeral strlen_at_numeral

lemmas layout_defs = VSFS_BLOCK_SIZE_def VSFS_ROOT_INO_def VSFS_SB_BLKNUM_def
  VSFS_IMAP_BLKNUM_def VSFS_DMAP_BLKNUM_def VSFS_ITBL_BLKNUM_def sizeof_vsfs_blk_t_def
  sizeof_name_def sizeof_vsfs_dentry_def dentries_per_block_def hdr_def

lemmas access_defs = get_dir_entry_def get_address_def data_range_def dentry_ino_def
  dentry_name_def ld32_def st32_def strcpy_to_def store_bytes_def zero_bytes_def byte_of_def

lemmas image_defs = img_hello_def blank_bytes_def root_inode_def zero_inode_def

lemma lookup_hello: "path_lookup hdr img_hello ''/hello'' = Some (0, Some 1)"
  by (simp add: path_lookup_def layout_defs access_defs image_defs loop_numerals)


section \<open>Loads, stores and the loops of truncate\<close>

lemma ld32_st32_same: "ld32 (st32 m a v) a = v"
proof (rule bit_word_eqI)
  fix n assume n: "n < LENGTH(32)"
  consider "n < 8" | "8 \<le> n" "n < 16" | "16 \<le> n" "n < 24" | "24 \<le> n" "n < 32"
    using n by fastforce
  then show "bit (ld32 (st32 m a v) a) n = bit v n"
  proof cases
    case 1 then show ?thesis by (simp add: ld32_def st32_def bit_simps)
  next
    case 2 then show ?thesis by (auto simp add: ld32_def st32_def bit_simps)
  next
    case 3 then show ?thesis by (auto simp add: ld32_def st32_def bit_simps)
  next
    case 4 then show ?thesis by (auto simp add: ld32_def st32_def bit_simps)
  qed
qed

lemma ld32_cong: "(\<And>k. k < 4 \<Longrightarrow> m' (a + k) = m (a + k)) \<Longrightarrow> ld32 m' a = ld32 m a"
proof -
  assume h: "\<And>k. k < 4 \<Longrightarrow> m' (a + k) = m (a + k)"
  have "m' a = m a" using h [of 0] by simp
  moreover have "m' (a + 1) = m (a + 1)" using h [of 1] by simp
  moreover have "m' (a + 2) = m (a + 2)" using h [of 2] by simp
  moreover have "m' (a + 3) = m (a + 3)" using h [of 3] by simp
  ultimately show ?thesis by (simp add: ld32_def)
qed

lemma alloc_blocks_frame:
  "alloc_blocks n fs = (ok, fs') \<Longrightarrow>
     image fs' = image fs \<and> itable fs' = itable fs \<and> ibmap fs' = ibmap fs
     \<and> num_blocks (sb fs') = num_blocks (sb fs) \<and> data_region (sb fs') = data_region (sb fs)
     \<and> num_inodes (sb fs') = num_inodes (sb fs) \<and> free_inodes (sb fs') = free_inodes (sb fs)
     \<and> magic (sb fs') = magic (sb fs) \<and> sb_size (sb fs') = sb_size (sb fs)"
proof (induction n arbitrary: fs)
  case 0
  then show ?case by simp
next
  case (Suc n)
  show ?case
  proof (cases "bitmap_alloc (dbmap fs) (unat (num_blocks (sb fs)))")
    case None
    with Suc.prems show ?thesis by simp
  next
    case (Some p)
    obtain b db where p: "p = (b, db)" by (cases p)
    from Suc.prems Some p
    have "alloc_blocks n (fs\<lparr>dbmap := bitmap_set db (unat (num_blocks (sb fs))) b True,
             sb := (sb fs)\<lparr>free_blocks := free_blocks (sb fs) - 1\<rparr>\<rparr>) = (ok, fs')"
      by simp
    from Suc.IH [OF this] show ?thesis by simp
  qed
qed

lemma free_tail_frame:
  "free_tail c ino i n fs = Some fs' \<Longrightarrow>
     image fs' = image fs \<and> itable fs' = itable fs \<and> ibmap fs' = ibmap fs
     \<and> num_blocks (sb fs') = num_blocks (sb fs) \<and> data_region (sb fs') = data_region (sb fs)
     \<and> num_inodes (sb fs') = num_inodes (sb fs) \<and> free_inodes (sb fs') = free_inodes (sb fs)
     \<and> magic (sb fs') = magic (sb fs) \<and> sb_size (sb fs') = sb_size (sb fs)"
proof (induction n arbitrary: fs i)
  case 0
  then show ?case by simp
next
  case (Suc n)
  from Suc.prems obtain db where
    db: "bitmap_free (dbmap fs) (unat (num_blocks (sb fs)))
           (unat (i_direct ino (VSFS_NUM_DIRECT c - 1 - i))) = Some db"
    and rest: "free_tail c ino (Suc i) n
          (fs\<lparr>dbmap := db, sb := (sb fs)\<lparr>free_blocks := free_blocks (sb fs) + 1\<rparr>\<rparr>) = Some fs'"
    by (auto split: option.splits)
  from Suc.IH [OF rest] show ?case by simp
qed

text \<open>What a truncate that returns 0 has done to the image, when the size changes.\<close>

lemma vsfs_truncate_result:
  assumes lk: "path_lookup c fs path = Some (err, Some ino)"
    and ino: "ino < num_inodes (sb fs)"
    and ne: "sz \<noteq> i_size (itable fs ino)"
    and tr: "vsfs_truncate c now fs path sz = Some (Inr r, fs')"
  shows "r = 0
    \<and> itable fs' = (itable fs)(ino := (itable fs ino)
          \<lparr>i_size := sz, i_blocks := div_round_up (ucast sz) (of_nat VSFS_BLOCK_SIZE),
           i_mtime := now\<rparr>)
    \<and> num_blocks (sb fs') = num_blocks (sb fs) \<and> data_region (sb fs') = data_region (sb fs)
    \<and> num_inodes (sb fs') = num_inodes (sb fs)
    \<and> (if i_size (itable fs ino) < sz
        then (\<exists>a. get_address c fs (itable fs ino) (ucast (i_size (itable fs ino))) = Some a
                \<and> data_range fs a (unat (sz - i_size (itable fs ino)))
                \<and> image fs' = zero_bytes (image fs) a (unat (sz - i_size (itable fs ino))))
        else image fs' = image fs)"
proof -
  let ?bs = "div_round_up (ucast sz) (of_nat VSFS_BLOCK_SIZE) :: 32 word"
  let ?ino = "itable fs ino"
  let ?n = "unat (sz - i_size ?ino)"
  have ia: "inode_at fs (Some ino) = Some (ino, ?ino)"
    using ino by (simp add: inode_at_def)
  obtain fs1 where
    fs1: "(if sz > i_size ?ino then
             (case get_address c fs ?ino (ucast (i_size ?ino)) of None \<Rightarrow> None
              | Some a \<Rightarrow> if data_range fs a ?n
                  then Some (fs\<lparr>image := zero_bytes (image fs) a ?n\<rparr>) else None)
           else Some fs) = Some fs1"
    using tr lk ia ne
    by (auto simp: vsfs_truncate_def Let_def split: if_splits option.splits)
  have fs1_frame: "itable fs1 = itable fs \<and> sb fs1 = sb fs"
    using fs1 by (auto split: if_splits option.splits)
  have fs1_img: "if i_size ?ino < sz
        then (\<exists>a. get_address c fs ?ino (ucast (i_size ?ino)) = Some a
                \<and> data_range fs a ?n \<and> image fs1 = zero_bytes (image fs) a ?n)
        else image fs1 = image fs"
    using fs1 by (auto split: if_splits option.splits)
  obtain fs2 where
    fs2: "fs' = set_size now ino sz ?bs fs2"
    and fr: "image fs2 = image fs1 \<and> itable fs2 = itable fs1
       \<and> num_blocks (sb fs2) = num_blocks (sb fs1) \<and> data_region (sb fs2) = data_region (sb fs1)
       \<and> num_inodes (sb fs2) = num_inodes (sb fs1)"
    and r: "r = 0"
  proof -
    have "\<exists>fs2. fs' = set_size now ino sz ?bs fs2 \<and> r = 0 \<and>
        (image fs2 = image fs1 \<and> itable fs2 = itable fs1
       \<and> num_blocks (sb fs2) = num_blocks (sb fs1) \<and> data_region (sb fs2) = data_region (sb fs1)
       \<and> num_inodes (sb fs2) = num_inodes (sb fs1))"
      using tr lk ia ne fs1
      apply (simp add: vsfs_truncate_def Let_def split: if_splits option.splits prod.splits bool.splits)
       apply (auto dest!: alloc_blocks_frame free_tail_frame)
      done
    then show ?thesis using that by blast
  qed
  show ?thesis
    using fs2 fr r fs1_frame fs1_img by (auto simp: set_size_def)
qed

section \<open>Writing past the end of a file\<close>

text \<open>
  Claim C10. For an existing file, a write whose offset is strictly greater than the
  current file size returns -EFBIG and changes nothing in the image, whatever the free
  counters and bitmaps hold: the test \<open>inode->i_size < (uint64_t) offset\<close> comes before any
  allocation.
\<close>

theorem vsfs_write_past_size_EFBIG:
  assumes "path_lookup c fs path = Some (0, Some ino)"
    and "ino < num_inodes (sb fs)"
    and "i_size (itable fs ino) < offset"
  shows "vsfs_write c now fs path buf offset = Some (Inl EFBIG, fs)"
  using assms by (simp add: vsfs_write_def inode_at_def)

theorem vsfs_write_past_size_EFBIG_witness:
  "path_lookup hdr img_hello ''/hello'' = Some (0, Some 1)
   \<and> (1 :: 32 word) < num_inodes (sb img_hello)
   \<and> i_size (itable img_hello 1) < 101
   \<and> free_blocks (sb img_hello) = 58 \<and> free_inodes (sb img_hello) = 30
   \<and> vsfs_write hdr (7, 0) img_hello ''/hello'' [104, 105] 101 = Some (Inl EFBIG, img_hello)"
proof -
  have a: "(1 :: 32 word) < num_inodes (sb img_hello)"
    by (simp add: img_hello_def)
  have b: "i_size (itable img_hello 1) < 101"
    by (simp add: img_hello_def)
  have c: "free_blocks (sb img_hello) = 58 \<and> free_inodes (sb img_hello) = 30"
    by (simp add: img_hello_def)
  show ?thesis
    using vsfs_write_past_size_EFBIG [OF lookup_hello a b, of "(7, 0)" "[104, 105]"]
      lookup_hello a b c
    by simp
qed

section \<open>getattr\<close>






section \<open>The formatter\<close>

lemma st32_other: "x < a \<or> a + 4 \<le> x \<Longrightarrow> st32 m a v x = m x"
  by (auto simp: st32_def)

lemma store_bytes_other: "x < a \<or> a + length buf \<le> x \<Longrightarrow> store_bytes m a buf x = m x"
  by (auto simp: store_bytes_def)

lemma store_bytes_at: "k < length buf \<Longrightarrow> store_bytes m a buf (a + k) = buf ! k"
  by (simp add: store_bytes_def)

lemma length_strncpy_buf:
  "length (take n (map byte_of name @ replicate (n - length name) 0)) = n"
  by simp

lemma strncpy_to_other: "x < a \<or> a + n \<le> x \<Longrightarrow> strncpy_to m a name n x = m x"
  unfolding strncpy_to_def by (rule store_bytes_other) (auto simp: min_def)

lemma strncpy_to_at:
  "k < n \<Longrightarrow> strncpy_to m a name n (a + k)
     = (if k < length name then byte_of (name ! k) else 0)"
  unfolding strncpy_to_def
  by (simp add: store_bytes_at nth_append)

lemma clear_entries_other:
  "(\<And>j. i \<le> j \<Longrightarrow> j < i + n \<Longrightarrow>
      x < a + j * sizeof_vsfs_dentry c \<or> a + j * sizeof_vsfs_dentry c + 4 \<le> x)
   \<Longrightarrow> clear_entries c a i n m x = m x"
proof (induction n arbitrary: i m)
  case 0
  then show ?case by simp
next
  case (Suc n)
  have "clear_entries c a (Suc i) n (st32 m (a + i * sizeof_vsfs_dentry c) (VSFS_INO_MAX c)) x
      = st32 m (a + i * sizeof_vsfs_dentry c) (VSFS_INO_MAX c) x"
    by (rule Suc.IH) (use Suc.prems in auto)
  also have "\<dots> = m x"
    by (rule st32_other) (use Suc.prems [of i] in auto)
  finally show ?case by simp
qed

lemma clear_entries_ino:
  assumes "4 \<le> sizeof_vsfs_dentry c" "i \<le> j" "j < i + n"
  shows "ld32 (clear_entries c a i n m) (a + j * sizeof_vsfs_dentry c) = VSFS_INO_MAX c"
  using assms(2,3)
proof (induction n arbitrary: i m)
  case 0
  then show ?case by simp
next
  case (Suc n)
  let ?d = "sizeof_vsfs_dentry c"
  let ?m = "st32 m (a + i * ?d) (VSFS_INO_MAX c)"
  show ?case
  proof (cases "j = i")
    case True
    have "ld32 (clear_entries c a (Suc i) n ?m) (a + i * ?d) = ld32 ?m (a + i * ?d)"
    proof (rule ld32_cong)
      fix k :: nat assume k: "k < 4"
      show "clear_entries c a (Suc i) n ?m (a + i * ?d + k) = ?m (a + i * ?d + k)"
      proof (rule clear_entries_other)
        fix j' assume j': "Suc i \<le> j'" "j' < Suc i + n"
        have "(i + 1) * ?d \<le> j' * ?d" using j' by (intro mult_le_mono1) simp
        then have "i * ?d + ?d \<le> j' * ?d" by (simp add: algebra_simps)
        then show "a + i * ?d + k < a + j' * ?d \<or> a + j' * ?d + 4 \<le> a + i * ?d + k"
          using k assms(1) by linarith
      qed
    qed
    then show ?thesis using True by (simp add: ld32_st32_same)
  next
    case False
    then have "Suc i \<le> j" "j < Suc i + n" using Suc.prems by auto
    from Suc.IH [OF this] show ?thesis by simp
  qed
qed

text \<open>The bits \<open>mark_itable\<close> sets.\<close>

lemma mark_itable_bit:
  "mark_itable nblks i n b j = (b j \<or> (VSFS_DMAP_BLKNUM + 1 + i \<le> j \<and> j < VSFS_DMAP_BLKNUM + 1 + i + n))"
  by (induction n arbitrary: i b) (auto simp: bitmap_set_def)

text \<open>\<open>first_clear\<close> finds the least clear bit from \<open>i\<close> on, below \<open>i + n\<close>.\<close>

lemma first_clear_Some:
  "first_clear b i n = Some j \<Longrightarrow> i \<le> j \<and> j < i + n \<and> \<not> b j \<and> (\<forall>k. i \<le> k \<and> k < j \<longrightarrow> b k)"
proof (induction n arbitrary: i)
  case 0
  then show ?case by simp
next
  case (Suc n)
  show ?case
  proof (cases "b i")
    case True
    with Suc.prems have "first_clear b (Suc i) n = Some j" by simp
    from Suc.IH [OF this]
    have ih: "Suc i \<le> j" "j < Suc i + n" "\<not> b j" "\<forall>k. Suc i \<le> k \<and> k < j \<longrightarrow> b k"
      by auto
    have "b k" if "i \<le> k" "k < j" for k
    proof (cases "k = i")
      case True
      then show ?thesis using \<open>b i\<close> by simp
    next
      case False
      then have "Suc i \<le> k" using that by simp
      then show ?thesis using ih(4) that by simp
    qed
    then show ?thesis using ih by auto
  next
    case False
    with Suc.prems show ?thesis by auto
  qed
qed

lemma first_clear_None:
  "first_clear b i n = None \<Longrightarrow> i \<le> k \<Longrightarrow> k < i + n \<Longrightarrow> b k"
proof (induction n arbitrary: i)
  case 0
  then show ?case by simp
next
  case (Suc n)
  then show ?case
    by (cases "k = i") (auto split: if_splits)
qed

text \<open>Rounding up the inode count to blocks: what \<open>div_round_up\<close> computes from the
  number of inodes in a block is ceil(N * sizeof(inode) / VSFS_BLOCK_SIZE) when the inode
  size divides the block size.\<close>

lemma ceil_div_scale:
  fixes N s p :: nat
  assumes "0 < s" "0 < p"
  shows "((N + p) * s - 1) div (s * p) = (N + p - 1) div p"
proof -
  have "0 < N + p" using assms by simp
  then obtain q where q: "N + p = Suc q" by (cases "N + p") auto
  have "(N + p) * s = q * s + s" using q by simp
  then have e: "(N + p) * s - 1 = (s - 1) + q * s" using assms by simp
  have "(s - 1 + q * s) div s = q + (s - 1) div s"
    by (rule div_mult_self1) (use assms in simp)
  moreover have "(s - 1) div s = 0" using assms by simp
  ultimately have "((N + p) * s - 1) div s = q" using e by presburger
  moreover have "((N + p) * s - 1) div (s * p) = (((N + p) * s - 1) div s) div p"
    by (simp add: div_mult2_eq)
  ultimately show ?thesis using q by simp
qed

lemma mkfs_True_D:
  assumes ok: "mkfs c clock img sz opts = Some (True, img')"
  shows "\<exists>now blk db5.
      clock = Some now
    \<and> n_inodes opts < ucast (VSFS_INO_MAX c)
    \<and> unat (n_inodes opts) \<le> 8 * VSFS_BLOCK_SIZE
    \<and> unat (ucast (sz div of_nat VSFS_BLOCK_SIZE) :: 32 word) \<le> 8 * VSFS_BLOCK_SIZE
    \<and> (of_nat (VSFS_BLOCK_SIZE div sizeof_vsfs_inode c) :: 32 word) \<noteq> 0
    \<and> bitmap_alloc
         (mark_itable (unat (ucast (sz div of_nat VSFS_BLOCK_SIZE) :: 32 word)) 0
            (unat (div_round_up (ucast (n_inodes opts))
                     (of_nat (VSFS_BLOCK_SIZE div sizeof_vsfs_inode c))))
            ((\<lambda>i. \<not> i < unat (ucast (sz div of_nat VSFS_BLOCK_SIZE) :: 32 word))
               (VSFS_SB_BLKNUM := True, VSFS_IMAP_BLKNUM := True, VSFS_DMAP_BLKNUM := True)))
         (unat (ucast (sz div of_nat VSFS_BLOCK_SIZE) :: 32 word)) = Some (blk, db5)
    \<and> VSFS_ITBL_BLKNUM < blk
    \<and> sb img' = \<lparr>magic = VSFS_MAGIC c, sb_size = sz,
                 num_inodes = ucast (n_inodes opts),
                 free_inodes = ucast (n_inodes opts - 1),
                 num_blocks = ucast (sz div of_nat VSFS_BLOCK_SIZE),
                 free_blocks = ucast (sz div of_nat VSFS_BLOCK_SIZE) - of_nat VSFS_DMAP_BLKNUM
                    - div_round_up (ucast (n_inodes opts))
                        (of_nat (VSFS_BLOCK_SIZE div sizeof_vsfs_inode c)) - 2,
                 data_region = of_nat VSFS_ITBL_BLKNUM
                    + div_round_up (ucast (n_inodes opts))
                        (of_nat (VSFS_BLOCK_SIZE div sizeof_vsfs_inode c))\<rparr>
    \<and> itable img' VSFS_ROOT_INO = (itable img VSFS_ROOT_INO)
          \<lparr>i_mtime := now, i_mode := S_IFDIR OR 511, i_nlink := 2,
           i_size := of_nat VSFS_BLOCK_SIZE, i_blocks := 1,
           i_direct := (i_direct (itable img VSFS_ROOT_INO))(0 := of_nat blk)\<rparr>
    \<and> dbmap img' = db5
    \<and> image img' =
         clear_entries c (blk * VSFS_BLOCK_SIZE) 2
           (unat (div_round_up (of_nat VSFS_BLOCK_SIZE) (of_nat (sizeof_vsfs_dentry c))) - 2)
           (strncpy_to
              (st32
                 (strncpy_to (st32 (image img) (blk * VSFS_BLOCK_SIZE) VSFS_ROOT_INO)
                    (dentry_name (blk * VSFS_BLOCK_SIZE)) ''.'' (sizeof_name c))
                 (blk * VSFS_BLOCK_SIZE + sizeof_vsfs_dentry c) VSFS_ROOT_INO)
              (dentry_name (blk * VSFS_BLOCK_SIZE + sizeof_vsfs_dentry c)) ''..''
              (sizeof_name c))"
  using ok unfolding mkfs_def Let_def
  by (auto simp: bitmap_init_def bitmap_set_def not_le split: if_splits option.splits)

lemma unat_of_nat32: "n < 2 ^ 32 \<Longrightarrow> unat (of_nat n :: 32 word) = n"
  by (simp add: unat_of_nat)

lemma unat_ucast_64_32: "unat (w :: 64 word) < 2 ^ 32 \<Longrightarrow> unat (ucast w :: 32 word) = unat w"
  by (simp add: unsigned_ucast_eq take_bit_nat_eq_self)

lemma unat_div_round_up:
  fixes x y :: "32 word"
  assumes "0 < unat y" "unat x + unat y \<le> 2 ^ 32"
  shows "unat (div_round_up x y) = (unat x + unat y - 1) div unat y"
proof -
  have y: "y \<noteq> 0" using assms(1) by (simp add: unat_gt_0)
  have y1: "unat (y - 1) = unat y - 1" using y by (rule unat_minus_one)
  have "unat x + unat (y - 1) < 2 ^ LENGTH(32)" using assms y1 by simp
  then have "unat (x + (y - 1)) = unat x + unat (y - 1)" by (simp only: unat_add_lem)
  then have "unat (x + y - 1) = unat x + unat y - 1" using y1 assms(1) by (simp add: algebra_simps)
  then show ?thesis by (simp add: div_round_up_def unat_div)
qed

text \<open>The size of the inode table in blocks, as \<open>mkfs\<close> computes it.\<close>

lemma ino_table_size_eq:
  assumes dv: "sizeof_vsfs_inode c dvd VSFS_BLOCK_SIZE"
    and n: "unat (n :: 64 word) \<le> 8 * VSFS_BLOCK_SIZE"
  shows "unat (div_round_up (ucast n) (of_nat (VSFS_BLOCK_SIZE div sizeof_vsfs_inode c)))
      = (unat n * sizeof_vsfs_inode c + VSFS_BLOCK_SIZE - 1) div VSFS_BLOCK_SIZE"
proof -
  let ?s = "sizeof_vsfs_inode c"
  let ?p = "VSFS_BLOCK_SIZE div ?s"
  have s0: "0 < ?s" using dv by (auto simp: VSFS_BLOCK_SIZE_def intro: Nat.gr0I)
  have sp: "?s * ?p = VSFS_BLOCK_SIZE" using dv by simp
  have p0: "0 < ?p" using sp by (auto simp: VSFS_BLOCK_SIZE_def intro: Nat.gr0I)
  have ple: "?p \<le> 4096" by (simp add: VSFS_BLOCK_SIZE_def div_le_dividend)
  have up: "unat (of_nat ?p :: 32 word) = ?p" using ple by (intro unat_of_nat32) simp
  have un: "unat (ucast n :: 32 word) = unat n"
    using n by (intro unat_ucast_64_32) (simp add: VSFS_BLOCK_SIZE_def)
  have "unat n + ?p \<le> 8 * 4096 + 4096" using n ple unfolding VSFS_BLOCK_SIZE_def by linarith
  then have "unat n + ?p \<le> 2 ^ 32" by simp
  then have "unat (div_round_up (ucast n) (of_nat ?p)) = (unat n + ?p - 1) div ?p"
    using unat_div_round_up [of "of_nat ?p" "ucast n"] p0 by (simp only: up un)
  also have "\<dots> = ((unat n + ?p) * ?s - 1) div (?s * ?p)"
    using ceil_div_scale [OF s0 p0, of "unat n"] by simp
  also have "(unat n + ?p) * ?s = unat n * ?s + VSFS_BLOCK_SIZE"
    using sp by (simp add: algebra_simps)
  finally show ?thesis by (simp add: sp)
qed

text \<open>The block \<open>mkfs\<close> allocates for the root directory is the first one behind the
  inode table.\<close>

lemma root_block_alloc:
  assumes "bitmap_alloc
         (mark_itable nb 0 T
            ((\<lambda>i. \<not> i < nb)
               (VSFS_SB_BLKNUM := True, VSFS_IMAP_BLKNUM := True, VSFS_DMAP_BLKNUM := True)))
         nb = Some (blk, db5)"
  shows "blk = 3 + T \<and> blk < nb \<and> db5 blk"
proof -
  let ?b = "mark_itable nb 0 T
            ((\<lambda>i. \<not> i < nb)
               (VSFS_SB_BLKNUM := True, VSFS_IMAP_BLKNUM := True, VSFS_DMAP_BLKNUM := True))"
  have bit: "?b j = (nb \<le> j \<or> j < 3 + T)" for j
    by (auto simp: mark_itable_bit VSFS_SB_BLKNUM_def VSFS_IMAP_BLKNUM_def VSFS_DMAP_BLKNUM_def)
  from assms have fc: "first_clear ?b 0 nb = Some blk" and db5: "db5 = ?b(blk := True)"
    by (auto simp: bitmap_alloc_def split: option.splits)
  from first_clear_Some [OF fc]
  have 1: "blk < nb" "\<not> ?b blk" and 2: "\<forall>k. k < blk \<longrightarrow> ?b k" by auto
  from 1 have ge: "3 + T \<le> blk" by (simp add: bit)
  have "blk \<le> 3 + T"
  proof (rule ccontr)
    assume "\<not> blk \<le> 3 + T"
    then have "3 + T < blk" by simp
    with 2 have "?b (3 + T)" by blast
    then show False using \<open>3 + T < blk\<close> 1(1) by (simp add: bit)
  qed
  with ge 1 db5 show ?thesis by simp
qed

text \<open>The root directory block as \<open>mkfs\<close> leaves it, at address \<open>a\<close>.\<close>

lemma root_entries_written:
  fixes c :: vsfs_h and a n :: nat and m :: "nat \<Rightarrow> byte"
  defines "d \<equiv> sizeof_vsfs_dentry c"
  defines "m' \<equiv> clear_entries c a 2 n
           (strncpy_to
              (st32 (strncpy_to (st32 m a VSFS_ROOT_INO) (dentry_name a) ''.'' (sizeof_name c))
                 (a + d) VSFS_ROOT_INO)
              (dentry_name (a + d)) ''..'' (sizeof_name c))"
  assumes nm: "2 \<le> VSFS_NAME_MAX c"
  shows "ld32 m' a = VSFS_ROOT_INO"
    and "strcmp_eq ''.'' m' (dentry_name a)"
    and "ld32 m' (a + d) = VSFS_ROOT_INO"
    and "strcmp_eq ''..'' m' (dentry_name (a + d))"
    and "2 \<le> i \<Longrightarrow> i < 2 + n \<Longrightarrow> ld32 m' (a + i * d) = VSFS_INO_MAX c"
proof -
  let ?s = "sizeof_name c"
  let ?m0 = "st32 m a VSFS_ROOT_INO"
  let ?m1 = "strncpy_to ?m0 (dentry_name a) ''.'' ?s"
  let ?m2 = "st32 ?m1 (a + d) VSFS_ROOT_INO"
  let ?m3 = "strncpy_to ?m2 (dentry_name (a + d)) ''..'' ?s"
  have d: "d = ?s + 4" "3 \<le> ?s" using nm by (simp_all add: d_def sizeof_vsfs_dentry_def sizeof_name_def)
  have m': "m' = clear_entries c a 2 n ?m3" by (simp add: m'_def)
  have low: "m' x = ?m3 x" if "x < a + 2 * d" for x
    unfolding m' d_def
  proof (rule clear_entries_other)
    fix j assume "2 \<le> j" "j < 2 + n"
    then have "2 * sizeof_vsfs_dentry c \<le> j * sizeof_vsfs_dentry c" by (intro mult_le_mono1)
    then show "x < a + j * sizeof_vsfs_dentry c \<or> a + j * sizeof_vsfs_dentry c + 4 \<le> x"
      using that unfolding d_def by linarith
  qed
  have e0: "?m3 x = ?m1 x" if "x < a + d" for x
    using that by (simp add: strncpy_to_other st32_other dentry_name_def)
  have ino0: "?m1 (a + k) = ?m0 (a + k)" if "k < 4" for k
    using that by (simp add: strncpy_to_other dentry_name_def)
  have "ld32 m' a = ld32 ?m0 a"
  proof (rule ld32_cong)
    fix k :: nat assume k: "k < 4"
    have "m' (a + k) = ?m3 (a + k)" using k d by (intro low) simp
    also have "\<dots> = ?m1 (a + k)" using k d by (intro e0) simp
    also have "\<dots> = ?m0 (a + k)" using k by (rule ino0)
    finally show "m' (a + k) = ?m0 (a + k)" .
  qed
  then show "ld32 m' a = VSFS_ROOT_INO" by (simp add: ld32_st32_same)
  have n0: "m' (dentry_name a + k) = ?m1 (dentry_name a + k)" if "k < 2" for k
  proof -
    have "m' (dentry_name a + k) = ?m3 (dentry_name a + k)"
      using that d by (intro low) (simp add: dentry_name_def)
    also have "\<dots> = ?m1 (dentry_name a + k)"
      using that d by (intro e0) (simp add: dentry_name_def)
    finally show ?thesis .
  qed
  have "m' (dentry_name a) = byte_of CHR ''.''"
    using n0 [of 0] strncpy_to_at [of 0 ?s ?m0 "dentry_name a" "''.''"] d by simp
  moreover have "m' (Suc (dentry_name a)) = 0"
    using n0 [of 1] strncpy_to_at [of 1 ?s ?m0 "dentry_name a" "''.''"] d by simp
  ultimately show "strcmp_eq ''.'' m' (dentry_name a)" by simp
  have ino1: "?m3 (a + d + k) = ?m2 (a + d + k)" if "k < 4" for k
    using that by (simp add: strncpy_to_other dentry_name_def)
  have "ld32 m' (a + d) = ld32 ?m2 (a + d)"
  proof (rule ld32_cong)
    fix k :: nat assume k: "k < 4"
    have "m' (a + d + k) = ?m3 (a + d + k)" using k d by (intro low) simp
    also have "\<dots> = ?m2 (a + d + k)" using k by (rule ino1)
    finally show "m' (a + d + k) = ?m2 (a + d + k)" .
  qed
  then show "ld32 m' (a + d) = VSFS_ROOT_INO" by (simp add: ld32_st32_same)
  have n1: "m' (dentry_name (a + d) + k) = ?m3 (dentry_name (a + d) + k)" if "k < 3" for k
    using that d by (intro low) (simp add: dentry_name_def)
  have "m' (dentry_name (a + d)) = byte_of CHR ''.''"
    using n1 [of 0] strncpy_to_at [of 0 ?s ?m2 "dentry_name (a + d)" "''..''"] d by simp
  moreover have "m' (Suc (dentry_name (a + d))) = byte_of CHR ''.''"
    using n1 [of 1] strncpy_to_at [of 1 ?s ?m2 "dentry_name (a + d)" "''..''"] d by simp
  moreover have "m' (Suc (Suc (dentry_name (a + d)))) = 0"
    using n1 [of 2] strncpy_to_at [of 2 ?s ?m2 "dentry_name (a + d)" "''..''"] d by simp
  ultimately show "strcmp_eq ''..'' m' (dentry_name (a + d))" by simp
  show "ld32 m' (a + i * d) = VSFS_INO_MAX c" if "2 \<le> i" "i < 2 + n"
    unfolding m' d_def using that d
    by (intro clear_entries_ino) (simp_all add: d_def)
qed

text \<open>
  Claim C7. After a successful format (\<open>mkfs\<close> returns true) of an image of \<open>nblks\<close> blocks
  with \<open>N\<close> inodes (\<open>N\<close> is not 0: \<open>parse_args\<close> refuses an inode count of 0 before
  \<open>main\<close> calls \<open>mkfs\<close>), the superblock holds the magic, the image size, num_inodes = N,
  free_inodes = N - 1, num_blocks = nblks, free_blocks = nblks - 3 - T - 1 and
  data_region = 3 + T, where T = ceil(N * sizeof(inode) / VSFS_BLOCK_SIZE); the root inode
  has mode S_IFDIR | 0777, link count 2, size VSFS_BLOCK_SIZE and block count 1; its
  directory block, recorded in \<open>i_direct[0]\<close> (the first block of the data region, marked in
  the data bitmap), holds the entries "." and ".." with inode VSFS_ROOT_INO, and every
  other entry of the block has inode VSFS_INO_MAX. The constants of vsfs.h enter through
  two facts the specification states: the inode size divides the block size, and a name
  buffer has room for "..".
\<close>

theorem mkfs_success_layout:
  fixes N nblks T a :: nat
  assumes ok: "mkfs c clock img sz opts = Some (True, img')"
    and nz: "n_inodes opts \<noteq> 0"
    and dv: "sizeof_vsfs_inode c dvd VSFS_BLOCK_SIZE"
    and nm: "2 \<le> VSFS_NAME_MAX c"
    and N: "N = unat (n_inodes opts)"
    and nblks: "nblks = unat (ucast (sz div of_nat VSFS_BLOCK_SIZE) :: 32 word)"
    and T: "T = (N * sizeof_vsfs_inode c + VSFS_BLOCK_SIZE - 1) div VSFS_BLOCK_SIZE"
    and root: "root = itable img' VSFS_ROOT_INO"
    and a: "a = unat (i_direct root 0) * VSFS_BLOCK_SIZE"
  shows "magic (sb img') = VSFS_MAGIC c \<and> sb_size (sb img') = sz
     \<and> unat (num_inodes (sb img')) = N \<and> 1 \<le> N \<and> unat (free_inodes (sb img')) = N - 1
     \<and> unat (num_blocks (sb img')) = nblks
     \<and> 3 + T + 1 \<le> nblks \<and> unat (free_blocks (sb img')) = nblks - 3 - T - 1
     \<and> unat (data_region (sb img')) = 3 + T
     \<and> i_mode root = S_IFDIR OR 511 \<and> i_nlink root = 2
     \<and> i_size root = of_nat VSFS_BLOCK_SIZE \<and> i_blocks root = 1
     \<and> i_direct root 0 = data_region (sb img') \<and> dbmap img' (3 + T)
     \<and> dentry_ino img' a = VSFS_ROOT_INO \<and> strcmp_eq ''.'' (image img') (dentry_name a)
     \<and> dentry_ino img' (a + sizeof_vsfs_dentry c) = VSFS_ROOT_INO
     \<and> strcmp_eq ''..'' (image img') (dentry_name (a + sizeof_vsfs_dentry c))
     \<and> (\<forall>i. 2 \<le> i \<and> i < dentries_per_block c \<longrightarrow>
           dentry_ino img' (a + i * sizeof_vsfs_dentry c) = VSFS_INO_MAX c)"
proof -
  let ?ipb = "of_nat (VSFS_BLOCK_SIZE div sizeof_vsfs_inode c) :: 32 word"
  let ?Tw = "div_round_up (ucast (n_inodes opts)) ?ipb"
  let ?nbw = "ucast (sz div of_nat VSFS_BLOCK_SIZE) :: 32 word"
  let ?d = "sizeof_vsfs_dentry c"
  let ?ne = "unat (div_round_up (of_nat VSFS_BLOCK_SIZE) (of_nat ?d))"
  from mkfs_True_D [OF ok] obtain now blk db5 where
    nmax: "n_inodes opts < ucast (VSFS_INO_MAX c)"
    and ncap: "unat (n_inodes opts) \<le> 8 * VSFS_BLOCK_SIZE"
    and bcap: "unat ?nbw \<le> 8 * VSFS_BLOCK_SIZE"
    and al: "bitmap_alloc
         (mark_itable (unat ?nbw) 0 (unat ?Tw)
            ((\<lambda>i. \<not> i < unat ?nbw)
               (VSFS_SB_BLKNUM := True, VSFS_IMAP_BLKNUM := True, VSFS_DMAP_BLKNUM := True)))
         (unat ?nbw) = Some (blk, db5)"
    and behind: "VSFS_ITBL_BLKNUM < blk"
    and sb': "sb img' = \<lparr>magic = VSFS_MAGIC c, sb_size = sz,
                 num_inodes = ucast (n_inodes opts),
                 free_inodes = ucast (n_inodes opts - 1),
                 num_blocks = ?nbw,
                 free_blocks = ?nbw - of_nat VSFS_DMAP_BLKNUM - ?Tw - 2,
                 data_region = of_nat VSFS_ITBL_BLKNUM + ?Tw\<rparr>"
    and it': "itable img' VSFS_ROOT_INO = (itable img VSFS_ROOT_INO)
          \<lparr>i_mtime := now, i_mode := S_IFDIR OR 511, i_nlink := 2,
           i_size := of_nat VSFS_BLOCK_SIZE, i_blocks := 1,
           i_direct := (i_direct (itable img VSFS_ROOT_INO))(0 := of_nat blk)\<rparr>"
    and db': "dbmap img' = db5"
    and im': "image img' =
         clear_entries c (blk * VSFS_BLOCK_SIZE) 2 (?ne - 2)
           (strncpy_to
              (st32
                 (strncpy_to (st32 (image img) (blk * VSFS_BLOCK_SIZE) VSFS_ROOT_INO)
                    (dentry_name (blk * VSFS_BLOCK_SIZE)) ''.'' (sizeof_name c))
                 (blk * VSFS_BLOCK_SIZE + ?d) VSFS_ROOT_INO)
              (dentry_name (blk * VSFS_BLOCK_SIZE + ?d)) ''..'' (sizeof_name c))"
    by blast
  have Tw: "unat ?Tw = T"
    using ino_table_size_eq [OF dv ncap] by (simp add: T N)
  from root_block_alloc [OF al] have blk: "blk = 3 + T" "blk < nblks" "db5 (3 + T)"
    by (auto simp: Tw nblks)
  have N1: "1 \<le> N"
  proof -
    have "unat (n_inodes opts) \<noteq> 0" using nz by (simp add: unat_eq_0)
    then show ?thesis by (simp add: N)
  qed
  have Nlt: "N < 2 ^ 32" using ncap by (simp add: N VSFS_BLOCK_SIZE_def)
  have nb_lt: "nblks \<le> 32768" using bcap by (simp add: nblks VSFS_BLOCK_SIZE_def)
  have ni: "unat (ucast (n_inodes opts) :: 32 word) = N"
    using Nlt by (simp add: N unat_ucast_64_32)
  have "unat (n_inodes opts - 1) = N - 1" using nz by (simp add: N unat_minus_one)
  then have fi: "unat (ucast (n_inodes opts - 1) :: 32 word) = N - 1"
    using Nlt by (simp add: unat_ucast_64_32)
  have Tw3: "unat (3 + ?Tw) = 3 + T"
  proof -
    have "unat (3 :: 32 word) + unat ?Tw < 2 ^ LENGTH(32)" using blk nb_lt by (simp add: Tw)
    then show ?thesis by (simp only: unat_add_lem) (simp add: Tw)
  qed
  have T4: "unat (?Tw + 4) = T + 4"
  proof -
    have "unat ?Tw + unat (4 :: 32 word) < 2 ^ LENGTH(32)" using blk nb_lt by (simp add: Tw)
    then show ?thesis by (simp only: unat_add_lem) (simp add: Tw)
  qed
  have fb: "unat (?nbw - 2 - ?Tw - 2) = nblks - 3 - T - 1"
  proof -
    have "?nbw - 2 - ?Tw - 2 = ?nbw - (?Tw + 4)" by simp
    moreover have "?Tw + 4 \<le> ?nbw" using blk T4 by (simp add: word_le_nat_alt nblks)
    ultimately have "unat (?nbw - 2 - ?Tw - 2) = unat ?nbw - unat (?Tw + 4)"
      by (simp only: unat_sub)
    then show ?thesis by (simp add: T4 nblks)
  qed
  have blkw: "unat (of_nat blk :: 32 word) = blk"
    using blk nb_lt by (intro unat_of_nat32) simp
  have dr: "(of_nat blk :: 32 word) = 3 + ?Tw"
    using blkw Tw3 blk by (simp add: word_unat_eq_iff)
  have a': "a = blk * VSFS_BLOCK_SIZE" by (simp add: a root it' blkw)
  have ents: "\<forall>i. 2 \<le> i \<and> i < dentries_per_block c \<longrightarrow>
           dentry_ino img' (a + i * ?d) = VSFS_INO_MAX c"
  proof (intro allI impI)
    fix i assume i: "2 \<le> i \<and> i < dentries_per_block c"
    then have d0: "0 < ?d" and dle: "?d \<le> 4096"
      by (auto simp: dentries_per_block_def VSFS_BLOCK_SIZE_def sizeof_vsfs_dentry_def
            intro!: leI dest: div_less)
    have ud: "unat (of_nat ?d :: 32 word) = ?d" using dle by (intro unat_of_nat32) simp
    have "?ne = (4096 + ?d - 1) div ?d"
      using unat_div_round_up [of "of_nat ?d" "of_nat VSFS_BLOCK_SIZE"] d0 dle
      by (simp add: ud VSFS_BLOCK_SIZE_def)
    moreover have "4096 div ?d \<le> (4096 + ?d - 1) div ?d" using d0 by (intro div_le_mono) simp
    ultimately have "i < ?ne"
      using i by (simp add: dentries_per_block_def VSFS_BLOCK_SIZE_def)
    then have "i < 2 + (?ne - 2)" by linarith
    then show "dentry_ino img' (a + i * ?d) = VSFS_INO_MAX c"
      using i root_entries_written(5) [OF nm, where i = i and n = "?ne - 2" and m = "image img"
          and a = "blk * VSFS_BLOCK_SIZE"]
      by (simp add: dentry_ino_def im' a')
  qed
  show ?thesis
    using ents root_entries_written(1-4) [OF nm, where n = "?ne - 2" and m = "image img"
          and a = "blk * VSFS_BLOCK_SIZE"]
      blk N1 fb Tw3 dr ni fi
    by (simp add: sb' root it' db' dentry_ino_def im' a' nblks VSFS_DMAP_BLKNUM_def
          VSFS_ITBL_BLKNUM_def)
qed

lemma word_of_unat_eq: "unat (x :: 'a::len word) = n \<Longrightarrow> x = of_nat n"
  by auto

lemma strncpy_to_apply:
  "strncpy_to m a name n x =
     (if a \<le> x \<and> x < a + n
      then (if x - a < length name then byte_of (name ! (x - a)) else 0)
      else m x)"
proof (cases "a \<le> x \<and> x < a + n")
  case True
  then have "strncpy_to m a name n (a + (x - a))
      = (if x - a < length name then byte_of (name ! (x - a)) else 0)"
    by (intro strncpy_to_at) linarith
  then show ?thesis using True by simp
next
  case False
  then have "x < a \<or> a + n \<le> x" by auto
  then have "strncpy_to m a name n x = m x" by (rule strncpy_to_other)
  then show ?thesis using False by auto
qed

lemmas mkfs_eval = mkfs_def opts32_def zero_image_def bitmap_init_def bitmap_set_def
  bitmap_alloc_def div_round_up_def Let_def S_IFDIR_def strncpy_to_apply

lemma mkfs_fresh: "mkfs hdr (Some (7, 0)) zero_image 262144 opts32 = Some (True, img_fresh)"
  unfolding img_fresh_def
  by (simp add: mkfs_eval layout_defs loop_numerals)

theorem mkfs_success_layout_witness:
  "mkfs hdr (Some (7, 0)) zero_image 262144 opts32 = Some (True, img_fresh)
   \<and> n_inodes opts32 = 32
   \<and> sizeof_vsfs_inode hdr dvd VSFS_BLOCK_SIZE \<and> 2 \<le> VSFS_NAME_MAX hdr
   \<and> magic (sb img_fresh) = 0xC5C369A4C5C369A4 \<and> sb_size (sb img_fresh) = 262144
   \<and> unat (num_inodes (sb img_fresh)) = 32 \<and> unat (free_inodes (sb img_fresh)) = 31
   \<and> unat (num_blocks (sb img_fresh)) = 64 \<and> unat (free_blocks (sb img_fresh)) = 59
   \<and> unat (data_region (sb img_fresh)) = 4
   \<and> i_mode (itable img_fresh 0) = 16895 \<and> i_nlink (itable img_fresh 0) = 2
   \<and> i_size (itable img_fresh 0) = 4096 \<and> i_blocks (itable img_fresh 0) = 1
   \<and> i_direct (itable img_fresh 0) 0 = 4 \<and> dbmap img_fresh 4
   \<and> dentry_ino img_fresh 16384 = 0 \<and> strcmp_eq ''.'' (image img_fresh) 16388
   \<and> dentry_ino img_fresh 16640 = 0 \<and> strcmp_eq ''..'' (image img_fresh) 16644
   \<and> dentry_ino img_fresh (16384 + 15 * 256) = 0xFFFFFFFF"
proof -
  have dv: "sizeof_vsfs_inode hdr dvd VSFS_BLOCK_SIZE"
    by (simp add: hdr_def VSFS_BLOCK_SIZE_def)
  have nm: "2 \<le> VSFS_NAME_MAX hdr"
    by (simp add: hdr_def)
  have n32: "n_inodes opts32 = 32" by (simp add: opts32_def)
  then have nz: "n_inodes opts32 \<noteq> 0" by simp
  note r = mkfs_success_layout [OF mkfs_fresh nz dv nm refl refl refl refl refl]
  have "unat (data_region (sb img_fresh)) = 4"
    using r by (simp add: opts32_def hdr_def VSFS_BLOCK_SIZE_def)
  then have dr: "data_region (sb img_fresh) = 4"
    by (drule_tac word_of_unat_eq) simp
  have "\<forall>i. 2 \<le> i \<and> i < dentries_per_block hdr \<longrightarrow>
      dentry_ino img_fresh (unat (i_direct (itable img_fresh VSFS_ROOT_INO) 0) * VSFS_BLOCK_SIZE
       + i * sizeof_vsfs_dentry hdr) = VSFS_INO_MAX hdr"
    using r by blast
  then have "2 \<le> (15 :: nat) \<and> 15 < dentries_per_block hdr \<longrightarrow>
      dentry_ino img_fresh (unat (i_direct (itable img_fresh VSFS_ROOT_INO) 0) * VSFS_BLOCK_SIZE
       + 15 * sizeof_vsfs_dentry hdr) = VSFS_INO_MAX hdr"
    by (rule spec)
  then have "dentry_ino img_fresh (unat (i_direct (itable img_fresh VSFS_ROOT_INO) 0) * VSFS_BLOCK_SIZE
       + 15 * sizeof_vsfs_dentry hdr) = VSFS_INO_MAX hdr"
    by (simp add: layout_defs)
  moreover have d0: "i_direct (itable img_fresh 0) 0 = 4"
    using r dr by (simp add: VSFS_ROOT_INO_def)
  ultimately show ?thesis
    using r dr mkfs_fresh dv nm n32
    by (simp add: d0 layout_defs S_IFDIR_def dentry_name_def)
qed

lemma mkfs_False_sb:
  assumes "mkfs c clock img sz opts = Some (False, img')"
  shows "sb img' = sb img"
  using assms unfolding mkfs_def Let_def
  by (auto split: if_splits option.splits)

text \<open>
  Claim C8, as amended. A run of the formatter that fails (inode count not below
  VSFS_INO_MAX, block count outside [VSFS_BLK_MIN, VSFS_BLK_MAX], clock failure, no block
  for the root directory, or an existing file system without \<open>-f\<close>) writes no field of the
  superblock: the superblock is the one the image had before the run, or the zeroed one
  when \<open>-z\<close> cleared the image first. So an image that did not carry the magic before the
  run does not carry it afterwards (the magic is not zero); an image that carried it and
  is reformatted with \<open>-f\<close> keeps it through a failed run.
\<close>

theorem mkfs_failure_keeps_superblock:
  assumes "mkfs_main c clock img fsize opts = Some (False, img')"
  shows "(sb img' = sb img \<or> (zero opts \<and> sb img' = sb zero_image))
     \<and> (VSFS_MAGIC c \<noteq> 0 \<and> \<not> vsfs_is_present c img \<longrightarrow> \<not> vsfs_is_present c img')"
proof -
  have 1: "sb img' = sb img \<or> (zero opts \<and> sb img' = sb zero_image)"
    using assms mkfs_False_sb [of c clock _ fsize opts img']
    by (auto simp: mkfs_main_def split: if_splits)
  then show ?thesis
    by (auto simp: vsfs_is_present_def zero_image_def)
qed

lemma mkfs_main_no_clock:
  "mkfs_main hdr None zero_image 262144 opts32
     = Some (False, zero_image\<lparr>ibmap := (\<lambda>i. \<not> i < 32)(0 := True),
                               dbmap := (\<lambda>i. \<not> i < 64)(0 := True, 1 := True, 2 := True, 3 := True)\<rparr>)"
  by (simp add: mkfs_main_def vsfs_is_present_def mkfs_eval layout_defs loop_numerals)

theorem mkfs_failure_keeps_superblock_witness:
  "mkfs_main hdr None zero_image 262144 opts32
     = Some (False, zero_image\<lparr>ibmap := (\<lambda>i. \<not> i < 32)(0 := True),
                               dbmap := (\<lambda>i. \<not> i < 64)(0 := True, 1 := True, 2 := True, 3 := True)\<rparr>)
   \<and> VSFS_MAGIC hdr \<noteq> 0 \<and> \<not> vsfs_is_present hdr zero_image
   \<and> \<not> vsfs_is_present hdr
         (zero_image\<lparr>ibmap := (\<lambda>i. \<not> i < 32)(0 := True),
                     dbmap := (\<lambda>i. \<not> i < 64)(0 := True, 1 := True, 2 := True, 3 := True)\<rparr>)"
proof -
  have m: "VSFS_MAGIC hdr \<noteq> 0" by (simp add: hdr_def)
  have p: "\<not> vsfs_is_present hdr zero_image"
    by (simp add: vsfs_is_present_def zero_image_def hdr_def)
  show ?thesis
    using mkfs_failure_keeps_superblock [OF mkfs_main_no_clock] m p mkfs_main_no_clock
    by simp
qed

text \<open>
  Claim C8 as stated fails where the image already carries the magic: a forced reformat
  of the image \<open>img_hello\<close> with an inode count that is not below VSFS_INO_MAX fails and
  leaves the magic in place.
\<close>

theorem mkfs_failure_magic_counterexample:
  "mkfs_main hdr (Some (7, 0)) img_hello 262144 opts_bad = Some (False, img_hello)
   \<and> vsfs_is_present hdr img_hello"
  by (simp add: mkfs_main_def mkfs_def opts_bad_def vsfs_is_present_def img_hello_def hdr_def
        Let_def)

section \<open>Round trip and zero fill\<close>






lemmas truncate_eval = vsfs_truncate_def inode_at_def div_round_up_def bitmap_alloc_def
  bitmap_set_def bitmap_free_def set_size_def Let_def

lemma truncate_hello_5000:
  "vsfs_truncate hdr (9, 0) img_hello ''/hello'' 5000 = Some (Inr 0, img_hello_5000)"
  unfolding img_hello_5000_def
  using lookup_hello
  by (simp add: truncate_eval layout_defs get_address_def data_range_def image_defs loop_numerals)

lemma load_bytes_const:
  "(\<And>k. k < n \<Longrightarrow> m (a + k) = v) \<Longrightarrow> load_bytes m a n = replicate n v"
  unfolding load_bytes_def by (rule nth_equalityI) simp_all

lemma blank_bytes_data: "20480 \<le> a \<Longrightarrow> blank_bytes a = 170"
proof -
  assume "20480 \<le> a"
  then have "5 \<le> a div 4096" by (simp add: le_div_geq)
  then show ?thesis by (simp add: blank_bytes_def)
qed

lemmas big_defs = img_big_def root_inode_def zero_inode_def

lemma lookup_big: "path_lookup hdr img_big ''/big'' = Some (0, Some 1)"
  by (simp add: path_lookup_def layout_defs access_defs big_defs blank_bytes_def loop_numerals)

lemma truncate_big_up:
  "vsfs_truncate hdr (9, 0) img_big ''/big'' 24577 = Some (Inr 0, img_big_up)"
  unfolding img_big_up_def
  using lookup_big
  by (simp add: truncate_eval layout_defs access_defs big_defs blank_bytes_def loop_numerals)

lemma address_big: "get_address hdr img_big (itable img_big 1) 24480 = Some 1056672"
  by (simp add: layout_defs access_defs big_defs blank_bytes_def)

lemma img_big_up_fields:
  "itable img_big_up = (itable img_big)(1 := (itable img_big 1)
          \<lparr>i_size := 24577, i_blocks := 7, i_mtime := (9, 0)\<rparr>)"
  "num_blocks (sb img_big_up) = 512" "data_region (sb img_big_up) = 4"
  "num_inodes (sb img_big_up) = 32"
  "image img_big_up = zero_bytes (image img_big) 1056672 97"
proof -
  have n: "(1 :: 32 word) < num_inodes (sb img_big)" by (simp add: img_big_def)
  have ne: "(24577 :: 64 word) \<noteq> i_size (itable img_big 1)" by (simp add: img_big_def)
  have sz: "i_size (itable img_big 1) = 24480" by (simp add: img_big_def)
  note r = vsfs_truncate_result [OF lookup_big n ne truncate_big_up]
  show "itable img_big_up = (itable img_big)(1 := (itable img_big 1)
          \<lparr>i_size := 24577, i_blocks := 7, i_mtime := (9, 0)\<rparr>)"
    using r by (simp add: div_round_up_def VSFS_BLOCK_SIZE_def)
  show "num_blocks (sb img_big_up) = 512" "data_region (sb img_big_up) = 4"
    "num_inodes (sb img_big_up) = 32"
    using r by (simp_all add: img_big_def)
  show "image img_big_up = zero_bytes (image img_big) 1056672 97"
    using r address_big by (simp add: sz)
qed

lemma lookup_big_up: "path_lookup hdr img_big_up ''/big'' = Some (0, Some 1)"
  by (simp add: path_lookup_def layout_defs access_defs img_big_up_fields big_defs
        blank_bytes_def loop_numerals)

lemma address_big_up: "get_address hdr img_big_up (itable img_big_up 1) 24480 = Some 1052576"
  by (simp add: layout_defs access_defs img_big_up_fields big_defs blank_bytes_def)

lemma bytes_big_up: "k < 97 \<Longrightarrow> image img_big_up (1052576 + k) = 170"
  by (simp add: img_big_up_fields zero_bytes_def img_big_def st32_def put_entries.simps
        strcpy_to_def store_bytes_def layout_defs dentry_name_def blank_bytes_data)

lemma entry_big: "ld32 (image img_big) 1056768 = 257"
  by (simp add: img_big_def ld32_st32_same)

lemma entry_big_up: "ld32 (image img_big_up) 1056768 = 256"
  by (simp add: img_big_up_fields img_big_def ld32_def zero_bytes_def st32_def)

text \<open>
  Claim C5, as the code has it. \<open>vsfs_truncate\<close> zeroes the new range with one \<open>memset\<close>
  from the address of the old end of the file, whatever block boundary lies in the range.
  In \<open>img_big\<close> the file /big ends 96 bytes before the end of block 257, its sixth block,
  and block 258 is its indirect block. truncate("/big", 24577) returns 0 after zeroing 97
  bytes: the 96 bytes left in block 257 and the first byte of block 258, the low byte of
  the entry that maps the sixth block, which now names block 256 instead of block 257. The
  read of the 97 new bytes returns the bytes of block 256, all 0xAA, not zeros.
\<close>

theorem truncate_zero_fill_overrun:
  "path_lookup hdr img_big ''/big'' = Some (0, Some 1)
   \<and> i_size (itable img_big 1) = 24480
   \<and> get_address hdr img_big (itable img_big 1) 24480 = Some (257 * 4096 + 4000)
   \<and> i_indirect (itable img_big 1) = 258
   \<and> ld32 (image img_big) (258 * 4096) = 257
   \<and> vsfs_truncate hdr (9, 0) img_big ''/big'' 24577 = Some (Inr 0, img_big_up)
   \<and> ld32 (image img_big_up) (258 * 4096) = 256
   \<and> vsfs_read hdr img_big_up ''/big'' (24577 - 24480) 24480 = Some (97, replicate 97 170)"
proof -
  have "load_bytes (image img_big_up) 1052576 97 = replicate 97 170"
    by (rule load_bytes_const) (rule bytes_big_up)
  then have "vsfs_read hdr img_big_up ''/big'' 97 24480 = Some (97, replicate 97 170)"
    using lookup_big_up address_big_up
    by (simp add: vsfs_read_def inode_at_def Let_def img_big_up_fields data_range_def
          VSFS_BLOCK_SIZE_def img_big_def)
  then show ?thesis
    using lookup_big truncate_big_up address_big entry_big entry_big_up
    by (simp add: img_big_def)
qed



















section \<open>Evaluating loads through stores\<close>

lemma st32_apply:
  "st32 m a v x = (if x = a + 3 then ucast (drop_bit 24 v)
                   else if x = a + 2 then ucast (drop_bit 16 v)
                   else if x = a + 1 then ucast (drop_bit 8 v)
                   else if x = a then ucast v else m x)"
  by (simp add: st32_def)

lemma store_bytes_apply:
  "store_bytes m a buf x = (if a \<le> x \<and> x < a + length buf then buf ! (x - a) else m x)"
  by (simp add: store_bytes_def)

lemma zero_bytes_apply:
  "zero_bytes m a n x = (if a \<le> x \<and> x < a + n then 0 else m x)"
  by (simp add: zero_bytes_def)

lemma strcpy_to_apply:
  "strcpy_to m a name x
     = (if a \<le> x \<and> x < a + length name + 1 then (map byte_of name @ [0]) ! (x - a) else m x)"
  by (simp add: strcpy_to_def store_bytes_def)

lemma ld32_st32_other: "b + 4 \<le> a \<or> a + 4 \<le> b \<Longrightarrow> ld32 (st32 m a v) b = ld32 m b"
  by (rule ld32_cong) (auto simp: st32_def)

lemma ld32_store_bytes_other:
  "b + 4 \<le> a \<or> a + length buf \<le> b \<Longrightarrow> ld32 (store_bytes m a buf) b = ld32 m b"
  by (rule ld32_cong) (auto simp: store_bytes_def)

lemma ld32_zero_bytes_other:
  "b + 4 \<le> a \<or> a + n \<le> b \<Longrightarrow> ld32 (zero_bytes m a n) b = ld32 m b"
  by (rule ld32_cong) (auto simp: zero_bytes_def)

lemma ld32_strcpy_to_other:
  "b + 4 \<le> a \<or> a + length name + 1 \<le> b \<Longrightarrow> ld32 (strcpy_to m a name) b = ld32 m b"
  unfolding strcpy_to_def by (rule ld32_store_bytes_other) simp

lemma ld32_strncpy_to_other:
  "b + 4 \<le> a \<or> a + n \<le> b \<Longrightarrow> ld32 (strncpy_to m a name n) b = ld32 m b"
  by (rule ld32_cong) (auto simp: strncpy_to_other)

lemma ld32_zero_mem: "ld32 (\<lambda>a. 0) b = 0"
  by (simp add: ld32_def)

lemmas ld32_blank = ld32_def [of blank_bytes]

lemmas mem_eval = st32_apply store_bytes_apply zero_bytes_apply strcpy_to_apply strncpy_to_apply
  ld32_st32_same ld32_st32_other ld32_store_bytes_other ld32_zero_bytes_other
  ld32_strcpy_to_other ld32_strncpy_to_other ld32_zero_mem ld32_blank blank_bytes_def
  byte_of_def

lemmas dir_eval = layout_defs get_dir_entry_def get_address_def data_range_def dentry_ino_def
  dentry_name_def loop_numerals

lemmas create_eval = vsfs_create_def S_ISREG_def bitmap_alloc_def bitmap_set_def leaf_name_def
  Let_def

lemmas unlink_eval = vsfs_unlink_def inode_at_def bitmap_free_def Let_def

lemma count_clear_numeral:
  "count_clear b i (numeral k) = (if b i then 0 else 1) + count_clear b (Suc i) (pred_numeral k)"
  by (simp add: numeral_eq_Suc)

section \<open>create and unlink of a file in a fresh image\<close>

lemma img_fresh_fields:
  "sb img_fresh = \<lparr>magic = 0xC5C369A4C5C369A4, sb_size = 262144, num_inodes = 32,
      free_inodes = 31, num_blocks = 64, free_blocks = 59, data_region = 4\<rparr>"
  "ibmap img_fresh i = (i = 0 \<or> 32 \<le> i)"
  "dbmap img_fresh i = (i < 5 \<or> 64 \<le> i)"
  "itable img_fresh 0 = \<lparr>i_mode = 16895, i_nlink = 2, i_size = 4096, i_blocks = 1,
      i_mtime = (7, 0), i_direct = (\<lambda>k. 0)(0 := 4), i_indirect = 0\<rparr>"
  "image img_fresh =
     clear_entries hdr 16384 2 14
       (strncpy_to (st32 (strncpy_to (st32 (\<lambda>a. 0) 16384 0) 16388 ''.'' 252) 16640 0)
          16644 ''..'' 252)"
  unfolding img_fresh_def
  by (auto simp add: mkfs_def opts32_def zero_image_def bitmap_init_def bitmap_set_def
      bitmap_alloc_def div_round_up_def Let_def S_IFDIR_def layout_defs dentry_name_def
      Suc_Suc_0 first_clear_numeral mark_itable_numeral)

lemma create_hi_eval:
  "vsfs_create hdr (8, 0) img_fresh ''/hi'' 33188
     = Some (Inr 0,
         img_fresh\<lparr>ibmap := (ibmap img_fresh)(1 := True),
                   itable := (itable img_fresh)
                     (1 := \<lparr>i_mode = 33188, i_nlink = 1, i_size = 0, i_blocks = 0,
                            i_mtime = (8, 0), i_direct = (\<lambda>k. 0), i_indirect = 0\<rparr>,
                      0 := (itable img_fresh 0)\<lparr>i_mtime := (8, 0)\<rparr>),
                   sb := (sb img_fresh)\<lparr>free_inodes := 30\<rparr>,
                   image := strcpy_to (st32 (image img_fresh) 16896 1) 16900 ''hi''\<rparr>)"
  by (simp add: create_eval img_fresh_fields dir_eval mem_eval)


lemma img_hi_eq:
  "img_hi = img_fresh\<lparr>ibmap := (ibmap img_fresh)(1 := True),
                   itable := (itable img_fresh)
                     (1 := \<lparr>i_mode = 33188, i_nlink = 1, i_size = 0, i_blocks = 0,
                            i_mtime = (8, 0), i_direct = (\<lambda>k. 0), i_indirect = 0\<rparr>,
                      0 := (itable img_fresh 0)\<lparr>i_mtime := (8, 0)\<rparr>),
                   sb := (sb img_fresh)\<lparr>free_inodes := 30\<rparr>,
                   image := strcpy_to (st32 (image img_fresh) 16896 1) 16900 ''hi''\<rparr>"
  unfolding img_hi_def by (simp add: create_hi_eval)

lemma lookup_hi: "path_lookup hdr img_hi ''/hi'' = Some (0, Some 1)"
  by (simp add: path_lookup_def img_hi_eq img_fresh_fields dir_eval mem_eval)

lemma unlink_hi_eval:
  "vsfs_unlink hdr (9, 0) img_hi ''/hi''
     = Some (Inr 0,
         img_hi\<lparr>itable := (itable img_hi)
                    (1 := (itable img_hi 1)\<lparr>i_nlink := 0\<rparr>,
                     0 := (itable img_hi 0)\<lparr>i_mtime := (9, 0)\<rparr>),
                ibmap := (ibmap img_hi)(1 := False),
                sb := (sb img_hi)\<lparr>free_inodes := 31\<rparr>,
                image := st32 (zero_bytes (image img_hi) 16896 2) 16896 4294967295\<rparr>)"
  using lookup_hi
  by (simp add: unlink_eval img_hi_eq img_fresh_fields dir_eval mem_eval)


lemma img_hi_gone_eq:
  "img_hi_gone =
     img_hi\<lparr>itable := (itable img_hi)
                (1 := (itable img_hi 1)\<lparr>i_nlink := 0\<rparr>,
                 0 := (itable img_hi 0)\<lparr>i_mtime := (9, 0)\<rparr>),
            ibmap := (ibmap img_hi)(1 := False),
            sb := (sb img_hi)\<lparr>free_inodes := 31\<rparr>,
            image := st32 (zero_bytes (image img_hi) 16896 2) 16896 4294967295\<rparr>"
  unfolding img_hi_gone_def by (simp add: unlink_hi_eval)

lemma hi_gone_bytes:
  "ld32 (image img_hi_gone) 16896 = 4294967295"
  "image img_hi_gone 16900 = 104" "image img_hi_gone 16901 = 105" "image img_hi_gone 16902 = 0"
  by (simp_all add: img_hi_gone_eq img_hi_eq mem_eval)

lemma lookup_linked: "path_lookup hdr img_linked ''/hello'' = Some (0, Some 1)"
  by (simp add: path_lookup_def img_linked_def img_hello_def root_inode_def dir_eval mem_eval)

lemma unlink_linked_eval:
  "vsfs_unlink hdr (9, 0) img_linked ''/hello''
     = Some (Inr 0,
         img_linked\<lparr>itable := (itable img_linked)
                       (1 := (itable img_linked 1)\<lparr>i_nlink := 1\<rparr>,
                        0 := (itable img_linked 0)\<lparr>i_mtime := (9, 0)\<rparr>),
                    dbmap := (dbmap img_linked)(5 := False),
                    sb := (sb img_linked)\<lparr>free_blocks := 59\<rparr>,
                    image := st32 (zero_bytes (image img_linked) 16896 5) 16896 4294967295\<rparr>)"
  using lookup_linked
  by (simp add: unlink_eval img_linked_def img_hello_def root_inode_def dir_eval mem_eval)

lemma img_linked_gone_eq:
  "img_linked_gone =
     img_linked\<lparr>itable := (itable img_linked)
                   (1 := (itable img_linked 1)\<lparr>i_nlink := 1\<rparr>,
                    0 := (itable img_linked 0)\<lparr>i_mtime := (9, 0)\<rparr>),
                dbmap := (dbmap img_linked)(5 := False),
                sb := (sb img_linked)\<lparr>free_blocks := 59\<rparr>,
                image := st32 (zero_bytes (image img_linked) 16896 5) 16896 4294967295\<rparr>"
  unfolding img_linked_gone_def by (simp add: unlink_linked_eval)

text \<open>
  Claim C4, as the code has it.
  \<open>vsfs_unlink\<close> on /hi, created in a freshly formatted image, marks the
  directory slot unused and leaves the name in it: the two bytes it zeroes are the first two
  of the entry, which the inode number then overwrites. And on a file whose link count
  stays above zero, here 2 before and 1 after, it frees the data block of the file and
  counts it free.\<close>

theorem unlink_keeps_name_frees_linked_blocks:
  "mkfs hdr (Some (7, 0)) zero_image 262144 opts32 = Some (True, img_fresh)
   \<and> vsfs_create hdr (8, 0) img_fresh ''/hi'' 33188 = Some (Inr 0, img_hi)
   \<and> vsfs_unlink hdr (9, 0) img_hi ''/hi'' = Some (Inr 0, img_hi_gone)
   \<and> ld32 (image img_hi_gone) 16896 = VSFS_INO_MAX hdr
   \<and> image img_hi_gone 16900 = byte_of CHR ''h''
   \<and> image img_hi_gone 16901 = byte_of CHR ''i''
   \<and> image img_hi_gone 16902 = 0
   \<and> vsfs_unlink hdr (9, 0) img_linked ''/hello'' = Some (Inr 0, img_linked_gone)
   \<and> i_nlink (itable img_linked 1) = 2 \<and> i_nlink (itable img_linked_gone 1) = 1
   \<and> dbmap img_linked 5 = True \<and> dbmap img_linked_gone 5 = False
   \<and> free_blocks (sb img_linked) = 58 \<and> free_blocks (sb img_linked_gone) = 59"
proof -
  have "vsfs_create hdr (8, 0) img_fresh ''/hi'' 33188 = Some (Inr 0, img_hi)"
    unfolding img_hi_def by (simp add: create_hi_eval)
  moreover have "vsfs_unlink hdr (9, 0) img_hi ''/hi'' = Some (Inr 0, img_hi_gone)"
    unfolding img_hi_gone_def by (simp add: unlink_hi_eval)
  moreover have "vsfs_unlink hdr (9, 0) img_linked ''/hello'' = Some (Inr 0, img_linked_gone)"
    unfolding img_linked_gone_def by (simp add: unlink_linked_eval)
  moreover have "i_nlink (itable img_linked 1) = 2" "dbmap img_linked 5 = True"
    "free_blocks (sb img_linked) = 58"
    by (simp_all add: img_linked_def img_hello_def)
  moreover have "i_nlink (itable img_linked_gone 1) = 1" "dbmap img_linked_gone 5 = False"
    "free_blocks (sb img_linked_gone) = 59"
    by (simp_all add: img_linked_gone_eq)
  ultimately show ?thesis
    using mkfs_fresh hi_gone_bytes by (simp add: hdr_def byte_of_def)
qed

section \<open>create on a full root directory\<close>

lemma create_full_eval:
  "vsfs_create hdr (8, 0) img_full ''/o'' 33188
     = Some (Inl ENOSPC,
         img_full\<lparr>ibmap := (ibmap img_full)(15 := True),
                  itable := (itable img_full)
                    (15 := \<lparr>i_mode = 33188, i_nlink = 1, i_size = 0, i_blocks = 0,
                            i_mtime = (8, 0), i_direct = (\<lambda>k. 0), i_indirect = 0\<rparr>),
                  sb := (sb img_full)\<lparr>free_inodes := 16\<rparr>\<rparr>)"
  by (simp add: create_eval img_full_def root_inode_def dir_eval mem_eval)

lemma img_full_o_eq:
  "img_full_o =
     img_full\<lparr>ibmap := (ibmap img_full)(15 := True),
              itable := (itable img_full)
                (15 := \<lparr>i_mode = 33188, i_nlink = 1, i_size = 0, i_blocks = 0,
                        i_mtime = (8, 0), i_direct = (\<lambda>k. 0), i_indirect = 0\<rparr>),
              sb := (sb img_full)\<lparr>free_inodes := 16\<rparr>\<rparr>"
  unfolding img_full_o_def by (simp add: create_full_eval)

text \<open>
  Claim C2, as the code has it.
  \<open>vsfs_create\<close> on an image whose root directory has no unused entry returns
  \<open>-ENOSPC\<close> and keeps the inode it allocated before looking for an entry: bit 15 of the
  inode bitmap is set, inode 15 is initialised, \<open>free_inodes\<close> is one less, and no
  directory entry names inode 15 (the bytes of the image are those before the call).\<close>

theorem create_full_directory_keeps_inode:
  "vsfs_create hdr (8, 0) img_full ''/o'' 33188 = Some (Inl ENOSPC, img_full_o)
   \<and> ibmap img_full 15 = False \<and> ibmap img_full_o 15 = True
   \<and> free_inodes (sb img_full) = 17 \<and> free_inodes (sb img_full_o) = 16
   \<and> count_clear (ibmap img_full) 0 32 = 17 \<and> count_clear (ibmap img_full_o) 0 32 = 16
   \<and> i_nlink (itable img_full 15) = 0 \<and> i_nlink (itable img_full_o 15) = 1
   \<and> image img_full_o = image img_full
   \<and> find_unused hdr img_full 0 (dentries_per_block hdr) = Some None"
proof -
  have "vsfs_create hdr (8, 0) img_full ''/o'' 33188 = Some (Inl ENOSPC, img_full_o)"
    unfolding img_full_o_def by (simp add: create_full_eval)
  moreover have "ibmap img_full 15 = False" "free_inodes (sb img_full) = 17"
    "i_nlink (itable img_full 15) = 0"
    by (simp_all add: img_full_def zero_inode_def)
  moreover have "count_clear (ibmap img_full) 0 32 = 17"
    by (simp add: img_full_def count_clear_numeral)
  moreover have "count_clear (ibmap img_full_o) 0 32 = 16"
    by (simp add: img_full_o_eq img_full_def count_clear_numeral)
  moreover have "ibmap img_full_o 15 = True" "free_inodes (sb img_full_o) = 16"
    "i_nlink (itable img_full_o 15) = 1" "image img_full_o = image img_full"
    by (simp_all add: img_full_o_eq)
  moreover have "find_unused hdr img_full 0 (dentries_per_block hdr) = Some None"
    by (simp add: img_full_def root_inode_def dir_eval mem_eval)
  ultimately show ?thesis by simp
qed

section \<open>truncate and the blocks of a file\<close>

lemma lookup_two: "path_lookup hdr img_two ''/hello'' = Some (0, Some 1)"
  by (simp add: path_lookup_def img_two_def img_hello_def root_inode_def dir_eval mem_eval)

lemma truncate_two_eval:
  "vsfs_truncate hdr (9, 0) img_two ''/hello'' 4096
     = Some (Inr 0,
         img_two\<lparr>dbmap := (dbmap img_two)(0 := False),
                 sb := (sb img_two)\<lparr>free_blocks := 58\<rparr>,
                 itable := (itable img_two)
                   (1 := (itable img_two 1)\<lparr>i_size := 4096, i_blocks := 1, i_mtime := (9, 0)\<rparr>)\<rparr>)"
  using lookup_two
  by (simp add: truncate_eval img_two_def img_hello_def dir_eval)

lemma img_two_cut_eq:
  "img_two_cut =
     img_two\<lparr>dbmap := (dbmap img_two)(0 := False),
             sb := (sb img_two)\<lparr>free_blocks := 58\<rparr>,
             itable := (itable img_two)
               (1 := (itable img_two 1)\<lparr>i_size := 4096, i_blocks := 1, i_mtime := (9, 0)\<rparr>)\<rparr>"
  unfolding img_two_cut_def by (simp add: truncate_two_eval)


lemma img_hello_5000_bitmap:
  "dbmap img_hello_5000 6 = True" "free_blocks (sb img_hello_5000) = 57"
  "i_direct (itable img_hello_5000 1) 1 = 0" "i_indirect (itable img_hello_5000 1) = 0"
  "i_size (itable img_hello_5000 1) = 5000" "i_blocks (itable img_hello_5000 1) = 2"
  "get_address hdr img_hello_5000 (itable img_hello_5000 1) 4096 = Some 0"
  unfolding img_hello_5000_def
  using lookup_hello
  by (simp_all add: truncate_eval layout_defs get_address_def data_range_def image_defs
      loop_numerals)

text \<open>
  Claim C3, as the code has it.
  \<open>vsfs_truncate\<close> of the 100-byte file /hello to 5000 bytes succeeds with size
  5000 and block count 2, and allocates block 6 in the data bitmap, but stores the number of
  that block nowhere: the second direct pointer of the inode is still 0, so the address of
  file offset 4096 is byte 0 of the image. And shrinking a file of two blocks, blocks 5 and
  6, to one block frees the block named by the last direct pointer, which is 0: bit 0 of the
  data bitmap is cleared, and block 6 stays allocated.\<close>

theorem truncate_blocks_not_recorded:
  "vsfs_truncate hdr (9, 0) img_hello ''/hello'' 5000 = Some (Inr 0, img_hello_5000)
   \<and> i_size (itable img_hello_5000 1) = 5000 \<and> i_blocks (itable img_hello_5000 1) = 2
   \<and> dbmap img_hello 6 = False \<and> dbmap img_hello_5000 6 = True
   \<and> free_blocks (sb img_hello) = 58 \<and> free_blocks (sb img_hello_5000) = 57
   \<and> i_direct (itable img_hello_5000 1) 1 = 0 \<and> i_indirect (itable img_hello_5000 1) = 0
   \<and> get_address hdr img_hello_5000 (itable img_hello_5000 1) 4096 = Some 0
   \<and> vsfs_truncate hdr (9, 0) img_two ''/hello'' 4096 = Some (Inr 0, img_two_cut)
   \<and> i_direct (itable img_two 1) 1 = 6 \<and> i_direct (itable img_two 1) 4 = 0
   \<and> dbmap img_two 6 = True \<and> dbmap img_two_cut 6 = True
   \<and> dbmap img_two 0 = True \<and> dbmap img_two_cut 0 = False"
proof -
  have "vsfs_truncate hdr (9, 0) img_two ''/hello'' 4096 = Some (Inr 0, img_two_cut)"
    unfolding img_two_cut_def by (simp add: truncate_two_eval)
  moreover have "dbmap img_hello 6 = False" "free_blocks (sb img_hello) = 58"
    by (simp_all add: img_hello_def)
  moreover have "i_direct (itable img_two 1) 1 = 6" "i_direct (itable img_two 1) 4 = 0"
    "dbmap img_two 6 = True" "dbmap img_two 0 = True"
    by (simp_all add: img_two_def)
  moreover have "dbmap img_two_cut 6 = True" "dbmap img_two_cut 0 = False"
    by (simp_all add: img_two_cut_eq img_two_def)
  ultimately show ?thesis
    using truncate_hello_5000 img_hello_5000_bitmap by simp
qed

text \<open>
  Claim C6, as the code has it.
  In \<open>img_two\<close> both free counters of the superblock equal the numbers of clear
  bits, 30 of the 32 inode bits and 57 of the 60 data bits from \<open>data_region\<close> on. After
  \<open>vsfs_truncate\<close> of /hello from two blocks to one, \<open>free_blocks\<close> is 58 and the number
  of clear data bits is still 57: the bit cleared is bit 0, outside the data region.\<close>

theorem truncate_shrink_free_blocks_count:
  "vsfs_truncate hdr (9, 0) img_two ''/hello'' 4096 = Some (Inr 0, img_two_cut)
   \<and> unat (num_inodes (sb img_two)) = 32 \<and> unat (data_region (sb img_two)) = 4
   \<and> unat (num_blocks (sb img_two)) = 64
   \<and> unat (free_inodes (sb img_two)) = 30 \<and> count_clear (ibmap img_two) 0 32 = 30
   \<and> unat (free_blocks (sb img_two)) = 57 \<and> count_clear (dbmap img_two) 4 60 = 57
   \<and> unat (free_blocks (sb img_two_cut)) = 58 \<and> count_clear (dbmap img_two_cut) 4 60 = 57
   \<and> dbmap img_two_cut 0 = False"
proof -
  have "vsfs_truncate hdr (9, 0) img_two ''/hello'' 4096 = Some (Inr 0, img_two_cut)"
    unfolding img_two_cut_def by (simp add: truncate_two_eval)
  moreover have "unat (num_inodes (sb img_two)) = 32" "unat (data_region (sb img_two)) = 4"
    "unat (num_blocks (sb img_two)) = 64" "unat (free_inodes (sb img_two)) = 30"
    "unat (free_blocks (sb img_two)) = 57"
    by (simp_all add: img_two_def img_hello_def)
  moreover have "count_clear (ibmap img_two) 0 32 = 30"
    by (simp add: img_two_def img_hello_def count_clear_numeral)
  moreover have "count_clear (dbmap img_two) 4 60 = 57"
    by (simp add: img_two_def count_clear_numeral)
  moreover have "count_clear (dbmap img_two_cut) 4 60 = 57"
    by (simp add: img_two_cut_eq img_two_def count_clear_numeral)
  moreover have "unat (free_blocks (sb img_two_cut)) = 58" "dbmap img_two_cut 0 = False"
    by (simp_all add: img_two_cut_eq)
  ultimately show ?thesis by simp
qed

end
